theory Spec2Isabelle
  imports Main
begin

section \<open>The two copies of the engine\<close>

text \<open>
  The repository holds the engine twice. \<open>Earlier\<close> is
  \<open>src/src/ImmutableLinkedOrderedMap.js\<close>; \<open>Later\<close> is the copy of the same file that
  \<open>src/webpack.config.js\<close> carries from its line 127 on. The later copy

  \<^item> makes \<open>MULTIWAY\<close> the default mode, where the earlier one has \<open>SINGLE\<close>;
  \<^item> separates versions with \<open>#\<close> instead of \<open>@\<close> and ends every version with the
    separator;
  \<^item> marks the node that \<open>addImmutableLinkedOrderedMapOrphanNode\<close> makes and passes every
    lookup through \<open>nodeOrUndefined\<close>;
  \<^item> has the \<open>lazy\<close> option of the factory, hands \<open>forEach\<close>'s index to the callback and
    gives \<open>values\<close>, \<open>keys\<close> and \<open>keysValues\<close> a \<open>reversed\<close> parameter.

  Everything else is the same code in both and is modelled once. The store names the
  copy that works on it.
\<close>

datatype engine = Earlier | Later

section \<open>Property names that every object inherits\<close>

text \<open>
  The heap object of a map, the table of keys that \<open>set\<close> and the factory have seen, and
  the dispatch table of the modes are plain objects (\<open>{}\<close>): indexing one with a name of
  \<open>Object.prototype\<close> yields the inherited property, a function (the object
  \<open>Object.prototype\<close> itself for \<open>__proto__\<close>), which is truthy.
\<close>

definition Object_prototype :: "string list" where
  "Object_prototype =
     [''constructor'', ''toString'', ''valueOf'', ''hasOwnProperty'', ''isPrototypeOf'',
      ''propertyIsEnumerable'', ''toLocaleString'', ''__proto__'', ''__defineGetter__'',
      ''__defineSetter__'', ''__lookupGetter__'', ''__lookupSetter__'']"

definition inherited :: "string \<Rightarrow> bool" where
  "inherited name = (name \<in> set Object_prototype)"

section \<open>Values, items and modes\<close>

text \<open>
  A key is the property name under which the shared heap object stores it (JavaScript
  turns a numeric key into its decimal string when it indexes an object).

  A value is opaque. \<open>Undefined\<close> is JavaScript's \<open>undefined\<close>; \<open>Value n\<close> is any other
  value, where two occurrences are \<open>===\<close> exactly when the numbers agree (a primitive by
  its value, an object by its identity).
\<close>

type_synonym key = string

datatype jsval = Undefined | Value nat

text \<open>
  The two documented item shapes, given by what \<open>keyValueForItem\<close> reads of them.
  \<open>ItemObject k i\<close> is the object \<open>i\<close> whose key property holds \<open>k\<close>: the whole object is
  the value. \<open>ItemPair k v\<close> is an object without the key property whose first property
  is \<open>k\<close>, with the value \<open>v\<close>.
\<close>

datatype item = ItemObject key nat | ItemPair key jsval

fun keyValueForItem :: "item \<Rightarrow> key \<times> jsval" where
  "keyValueForItem (ItemObject k i) = (k, Value i)"
| "keyValueForItem (ItemPair k v) = (k, v)"

datatype mode = SINGLE | MULTIWAY | LIGHTWEIGHT

definition ImmutableLinkedOrderedMapMode :: "mode \<Rightarrow> int" where
  "ImmutableLinkedOrderedMapMode m = (case m of SINGLE \<Rightarrow> 1 | MULTIWAY \<Rightarrow> 2 | LIGHTWEIGHT \<Rightarrow> 3)"

definition DEFAULT_MAP_MODE :: "engine \<Rightarrow> mode" where
  "DEFAULT_MAP_MODE e = (case e of Earlier \<Rightarrow> SINGLE | Later \<Rightarrow> MULTIWAY)"

definition DEFAULT_KEY_PROP_NAME :: string where
  "DEFAULT_KEY_PROP_NAME = ''id''"

definition MULTIWAY_MODE_INITIAL_MAP_TREE_DEPTH_VERSION :: string where
  "MULTIWAY_MODE_INITIAL_MAP_TREE_DEPTH_VERSION = []"

definition MULTIWAY_MODE_MAP_TREE_DEPTH_VERSION_SEPARATOR :: "engine \<Rightarrow> string" where
  "MULTIWAY_MODE_MAP_TREE_DEPTH_VERSION_SEPARATOR e = (case e of Earlier \<Rightarrow> ''@'' | Later \<Rightarrow> ''#'')"

text \<open>The decimal digits of a number, as a template literal or a property name has them.\<close>

definition digit_char :: "nat \<Rightarrow> char" where
  "digit_char n = ''0123456789'' ! n"

fun string_of_nat :: "nat \<Rightarrow> string" where
  "string_of_nat n =
     (if n < 10 then [digit_char n]
      else string_of_nat (n div 10) @ [digit_char (n mod 10)])"

declare string_of_nat.simps [simp del]

definition string_of_int :: "int \<Rightarrow> string" where
  "string_of_int i = (if i < 0 then CHR ''-'' # string_of_nat (nat (- i)) else string_of_nat (nat i))"

text \<open>
  What a caller can give for the \<open>mode\<close> option: a number (the documented type) or a
  string. The dispatch table is indexed with the property name of the value.
\<close>

datatype option_value = NumberValue int | StringValue string

fun property_name :: "option_value \<Rightarrow> string" where
  "property_name (NumberValue n) = string_of_int n"
| "property_name (StringValue t) = t"

text \<open>
  The own properties of the dispatch table \<open>ImmutableLinkedOrderedMapForMode\<close>: the
  functions and the class of a mode, under the mode's number.
\<close>

definition ImmutableLinkedOrderedMapForMode :: "string \<Rightarrow> mode option" where
  "ImmutableLinkedOrderedMapForMode name =
     (if name = ''1'' then Some SINGLE
      else if name = ''2'' then Some MULTIWAY
      else if name = ''3'' then Some LIGHTWEIGHT
      else None)"

text \<open>
  The first statement of the factory,
  \<open>mode = (ImmutableLinkedOrderedMapForMode[mode] && mode) || (mode = DEFAULT_MAP_MODE)\<close>,
  as the property name of \<open>mode\<close> after it. \<open>None\<close> is an omitted (or \<open>undefined\<close>) option,
  which the parameter default replaces by \<open>DEFAULT_MAP_MODE\<close>. An inherited property of
  the table is truthy, and so is every value that names one.
\<close>

definition resolveMode :: "engine \<Rightarrow> option_value option \<Rightarrow> string" where
  "resolveMode e given =
     (case given of
        None \<Rightarrow> string_of_int (ImmutableLinkedOrderedMapMode (DEFAULT_MAP_MODE e))
      | Some v \<Rightarrow>
          if ImmutableLinkedOrderedMapForMode (property_name v) \<noteq> None \<or> inherited (property_name v)
          then property_name v
          else string_of_int (ImmutableLinkedOrderedMapMode (DEFAULT_MAP_MODE e)))"

datatype error =
    SingleModeMutationAlreadyOccurred string
  | LightweightModePostMutationUse string
  | TypeError
  | RangeError

text \<open>
  \<open>newMapFromMode\<close> reads \<open>ImmutableLinkedOrderedMapClass\<close> of the table's entry and calls
  \<open>new\<close> on it: on an inherited property of the table that is \<open>new undefined()\<close>, a
  TypeError. The result is the mode whose class made the map.
\<close>

definition newMapFromMode :: "string \<Rightarrow> error + mode" where
  "newMapFromMode name =
     (case ImmutableLinkedOrderedMapForMode name of
        Some md \<Rightarrow> Inr md
      | None \<Rightarrow> Inl TypeError)"

section \<open>The mutable linked ordered map used internally\<close>

text \<open>
  \<open>LinkedOrderedMap\<close> is a hash of its keys beside a doubly linked list of the key/value
  cells. The engine only ever calls \<open>set\<close>, \<open>get\<close> and \<open>forEach\<close> on it, so it is the
  list of its cells in list order, each key once.
\<close>

type_synonym ('k, 'v) LinkedOrderedMap = "('k \<times> 'v) list"

fun lom_overwrite :: "'k \<Rightarrow> 'v \<Rightarrow> ('k, 'v) LinkedOrderedMap \<Rightarrow> ('k, 'v) LinkedOrderedMap" where
  "lom_overwrite k v [] = []"
| "lom_overwrite k v ((k', v') # rest) =
     (if k' = k then (k', v) # rest else (k', v') # lom_overwrite k v rest)"

definition lom_has :: "'k \<Rightarrow> ('k, 'v) LinkedOrderedMap \<Rightarrow> bool" where
  "lom_has k m = (map_of m k \<noteq> None)"

definition lom_set :: "'k \<Rightarrow> 'v \<Rightarrow> bool \<Rightarrow> ('k, 'v) LinkedOrderedMap \<Rightarrow> ('k, 'v) LinkedOrderedMap" where
  "lom_set k v prepend m =
     (if lom_has k m then lom_overwrite k v m
      else if prepend then (k, v) # m
      else m @ [(k, v)])"

text \<open>The cell of a key changed in place (a nested map fetched with \<open>get\<close> and then written).\<close>

fun lom_modify :: "'k \<Rightarrow> ('v \<Rightarrow> 'v) \<Rightarrow> ('k, 'v) LinkedOrderedMap \<Rightarrow> ('k, 'v) LinkedOrderedMap" where
  "lom_modify k f [] = []"
| "lom_modify k f ((k', v') # rest) =
     (if k' = k then (k', f v') # rest else (k', v') # lom_modify k f rest)"

text \<open>
  The \<open>forEach\<close> of the single-mode lookups: the first cell, in list order, whose depth
  is at most the map's.
\<close>

fun find_depth :: "nat \<Rightarrow> (nat, 'v) LinkedOrderedMap \<Rightarrow> 'v option" where
  "find_depth d [] = None"
| "find_depth d ((depthKey, v) # rest) =
     (if d \<ge> depthKey then Some v else find_depth d rest)"

definition isAncestorVersionOfDescendantVersion :: "string \<Rightarrow> string \<Rightarrow> bool" where
  "isAncestorVersionOfDescendantVersion possibleAncestorVersion descendantVersion =
     (take (length possibleAncestorVersion) descendantVersion = possibleAncestorVersion)"

text \<open>The inner \<open>forEach\<close> of the multiway lookups, over one version stack.\<close>

fun find_version :: "string \<Rightarrow> (string, 'v) LinkedOrderedMap \<Rightarrow> 'v option" where
  "find_version ver [] = None"
| "find_version ver ((stackVersion, possibleNode) # rest) =
     (if isAncestorVersionOfDescendantVersion stackVersion ver then Some possibleNode
      else find_version ver rest)"

section \<open>Nodes, heap maps, maps and the store\<close>

text \<open>
  The neighbour field of a node: a raw reference in lightweight mode, a map from depths
  in single mode, a map from depths to version stacks in multiway mode. \<open>None\<close> is
  \<open>null\<close>; a node is named by its address in the store.
\<close>

datatype links =
    Raw "nat option"
  | ByDepth "(nat, nat option) LinkedOrderedMap"
  | ByVersion "(nat, (string, nat option) LinkedOrderedMap) LinkedOrderedMap"

record node =
  node_previous :: links
  node_next :: links
  element_key :: key
  element_value :: jsval
  isOrphanNode :: bool

datatype direction = Previous | Next

text \<open>What the heap map holds under a key, by mode.\<close>

datatype hentry =
    HNode nat
  | HDepth "(nat, nat) LinkedOrderedMap"
  | HVersion "(nat, (string, nat) LinkedOrderedMap) LinkedOrderedMap"

type_synonym heap = "key \<Rightarrow> hentry option"

datatype change =
    ChangeSet "(key \<times> jsval) list" "(key \<times> jsval) list" bool
  | ChangeReplace key key jsval bool bool bool bool
  | ChangeUnset key jsval
  | ChangeEmpty

record imap =
  heapMap :: nat
  depth :: nat
  mlength :: int
  keyPropName :: string
  mode :: mode
  head :: "nat option"
  tail :: "nat option"
  ancestorMap :: "nat option"
  shouldNextForEachBreak :: bool
  change :: "change option"
  version :: string
  childrenCount :: nat
  mutationOperationOccurred :: bool

text \<open>
  The store: every node, heap map and map is an object with an identity, here its
  address. Allocation takes the next free address. A heap map is given by its own
  properties, with one exception: a lightweight-mode heap map on which
  \<open>heapMap["__proto__"] = node\<close> has run has that node as its prototype, which is what
  reading \<open>__proto__\<close> of it then yields; the cell under \<open>__proto__\<close> is that prototype.
\<close>

record state =
  engine :: engine
  nodeStore :: "nat \<Rightarrow> node"
  nodeCount :: nat
  heapStore :: "nat \<Rightarrow> heap"
  heapCount :: nat
  mapStore :: "nat \<Rightarrow> imap"
  mapCount :: nat

definition blank_node :: node where
  "blank_node = \<lparr>node_previous = Raw None, node_next = Raw None,
                  element_key = [], element_value = Undefined, isOrphanNode = False\<rparr>"

definition blank_map :: imap where
  "blank_map = \<lparr>heapMap = 0, depth = 0, mlength = 0, keyPropName = [], mode = SINGLE,
                 head = None, tail = None, ancestorMap = None,
                 shouldNextForEachBreak = False, change = None, version = [],
                 childrenCount = 0, mutationOperationOccurred = False\<rparr>"

definition init_state :: "engine \<Rightarrow> state" where
  "init_state e = \<lparr>engine = e, nodeStore = (\<lambda>_. blank_node), nodeCount = 0,
                  heapStore = (\<lambda>_. Map.empty), heapCount = 0,
                  mapStore = (\<lambda>_. blank_map), mapCount = 0\<rparr>"

definition allocNode :: "node \<Rightarrow> state \<Rightarrow> nat \<times> state" where
  "allocNode n s =
     (nodeCount s, s\<lparr>nodeStore := (nodeStore s)(nodeCount s := n), nodeCount := nodeCount s + 1\<rparr>)"

definition updNode :: "nat \<Rightarrow> (node \<Rightarrow> node) \<Rightarrow> state \<Rightarrow> state" where
  "updNode r f s = s\<lparr>nodeStore := (nodeStore s)(r := f (nodeStore s r))\<rparr>"

definition updMap :: "nat \<Rightarrow> (imap \<Rightarrow> imap) \<Rightarrow> state \<Rightarrow> state" where
  "updMap r f s = s\<lparr>mapStore := (mapStore s)(r := f (mapStore s r))\<rparr>"

definition updHeap :: "nat \<Rightarrow> key \<Rightarrow> hentry \<Rightarrow> state \<Rightarrow> state" where
  "updHeap h k e s = s\<lparr>heapStore := (heapStore s)(h := (heapStore s h)(k \<mapsto> e))\<rparr>"

definition makeNode :: "links \<Rightarrow> links \<Rightarrow> key \<Rightarrow> jsval \<Rightarrow> node" where
  "makeNode previous nxt k v =
     \<lparr>node_previous = previous, node_next = nxt, element_key = k, element_value = v,
      isOrphanNode = False\<rparr>"

definition direction_links :: "node \<Rightarrow> direction \<Rightarrow> links" where
  "direction_links n dir = (case dir of Previous \<Rightarrow> node_previous n | Next \<Rightarrow> node_next n)"

text \<open>
  What a lookup hands to its caller: nothing (\<open>undefined\<close> or \<open>null\<close>), a node, or a truthy
  value that is no node (an inherited function or object). The callers read
  \<open>element.value\<close> of what they get when it is truthy; of a value that is no node that
  is a property of \<open>undefined\<close>, a TypeError.
\<close>

datatype found = NoNode | IsNode nat | NotANode

text \<open>
  \<open>nodeOrUndefined\<close> of the later copy, \<open>node && !isOrphanNode(node) ? node : void 0\<close>; an
  inherited value has no property \<open>isOrphanNode\<close> and passes. \<open>lookup_return\<close> is the
  \<open>return\<close> statement of a lookup, which the earlier copy writes \<open>return node\<close>.
\<close>

definition nodeOrUndefined :: "state \<Rightarrow> found \<Rightarrow> found" where
  "nodeOrUndefined s node =
     (case node of
        IsNode n \<Rightarrow> if isOrphanNode (nodeStore s n) then NoNode else IsNode n
      | _ \<Rightarrow> node)"

definition lookup_return :: "state \<Rightarrow> found \<Rightarrow> found" where
  "lookup_return s node = (case engine s of Earlier \<Rightarrow> node | Later \<Rightarrow> nodeOrUndefined s node)"

section \<open>Single mode\<close>

definition depth_links_set :: "nat \<Rightarrow> nat option \<Rightarrow> links \<Rightarrow> links" where
  "depth_links_set d v l =
     (case l of ByDepth dm \<Rightarrow> ByDepth (lom_set d v True dm) | _ \<Rightarrow> l)"

definition bindSingleModeNodes :: "nat \<Rightarrow> nat \<Rightarrow> nat \<Rightarrow> state \<Rightarrow> state" where
  "bindSingleModeNodes m previousNode nextNode s =
     (let d = depth (mapStore s m);
          s1 = updNode previousNode
                 (\<lambda>n. n\<lparr>node_next := depth_links_set d (Some nextNode) (node_next n)\<rparr>) s
      in updNode nextNode
           (\<lambda>n. n\<lparr>node_previous := depth_links_set d (Some previousNode) (node_previous n)\<rparr>) s1)"

definition makeSingleModeImmutableLinkedOrderedMapNode ::
  "nat \<Rightarrow> nat option \<Rightarrow> nat option \<Rightarrow> key \<Rightarrow> jsval \<Rightarrow> state \<Rightarrow> node" where
  "makeSingleModeImmutableLinkedOrderedMapNode m previous nxt k v s =
     (let d = depth (mapStore s m);
          previousDepthMap = lom_set d previous False [];
          nextDepthMap = lom_set d nxt False []
      in makeNode (ByDepth previousDepthMap) (ByDepth nextDepthMap) k v)"

definition findSingleModeMapNodeByDirection :: "state \<Rightarrow> nat \<Rightarrow> nat \<Rightarrow> direction \<Rightarrow> nat option" where
  "findSingleModeMapNodeByDirection s m fromNode nextNodeDirection =
     (if (Some fromNode = tail (mapStore s m) \<and> nextNodeDirection = Next)
         \<or> (Some fromNode = head (mapStore s m) \<and> nextNodeDirection = Previous)
      then None
      else case direction_links (nodeStore s fromNode) nextNodeDirection of
             ByDepth directionMap \<Rightarrow>
               (case find_depth (depth (mapStore s m)) directionMap of
                  Some v \<Rightarrow> v
                | None \<Rightarrow> None)
           | _ \<Rightarrow> None)"

text \<open>
  \<open>if (!heapMap[key]) heapMap[key] = new LinkedOrderedMap()\<close> and then
  \<open>heapMap[key].set(depth, itemNode, true)\<close>. For a key that names an inherited property
  and has no cell, \<open>heapMap[key]\<close> is the inherited function: no depth map is made, and
  calling its \<open>set\<close>, which is \<open>undefined\<close>, throws a TypeError before anything is written.
  (A cell of another mode's shape does not occur in a single-mode heap map; the model
  gives it the same TypeError.) The result is the error, if one is thrown, and the store.
\<close>

definition updateSingleModeHeapMap :: "nat \<Rightarrow> nat \<Rightarrow> state \<Rightarrow> error option \<times> state" where
  "updateSingleModeHeapMap m itemNode s =
     (let h = heapMap (mapStore s m);
          d = depth (mapStore s m);
          k = element_key (nodeStore s itemNode)
      in case heapStore s h k of
           None \<Rightarrow>
             if inherited k then (Some TypeError, s)
             else (None, updHeap h k (HDepth (lom_set d itemNode True [])) s)
         | Some (HDepth depthMap) \<Rightarrow>
             (None, updHeap h k (HDepth (lom_set d itemNode True depthMap)) s)
         | Some _ \<Rightarrow> (Some TypeError, s))"

text \<open>
  \<open>lookupSingleMode\<close> returns \<open>undefined\<close> when \<open>heapMap[key]\<close> is falsy and calls
  \<open>forEach\<close> of it otherwise: a TypeError on an inherited function.
\<close>

definition lookupSingleMode :: "state \<Rightarrow> nat \<Rightarrow> key \<Rightarrow> error + found" where
  "lookupSingleMode s m k =
     (case heapStore s (heapMap (mapStore s m)) k of
        None \<Rightarrow> if inherited k then Inl TypeError else Inr NoNode
      | Some (HDepth depthMap) \<Rightarrow>
          Inr (lookup_return s
                 (case find_depth (depth (mapStore s m)) depthMap of
                    Some n \<Rightarrow> IsNode n
                  | None \<Rightarrow> NoNode))
      | Some _ \<Rightarrow> Inl TypeError)"

section \<open>Multiway mode\<close>

definition version_links_set :: "nat \<Rightarrow> string \<Rightarrow> nat option \<Rightarrow> links \<Rightarrow> links" where
  "version_links_set d ver v l =
     (case l of
        ByVersion dm \<Rightarrow>
          (let dm1 = (if \<not> lom_has d dm then lom_set d [] True dm else dm)
           in ByVersion (lom_modify d (lom_set ver v True) dm1))
      | _ \<Rightarrow> l)"

definition bindMultiwayModeNodes :: "nat \<Rightarrow> nat \<Rightarrow> nat \<Rightarrow> state \<Rightarrow> state" where
  "bindMultiwayModeNodes m previousNode nextNode s =
     (let d = depth (mapStore s m);
          ver = version (mapStore s m);
          s1 = updNode previousNode
                 (\<lambda>n. n\<lparr>node_next := version_links_set d ver (Some nextNode) (node_next n)\<rparr>) s
      in updNode nextNode
           (\<lambda>n. n\<lparr>node_previous :=
                     version_links_set d ver (Some previousNode) (node_previous n)\<rparr>) s1)"

definition makeMultiwayModeImmutableLinkedOrderedMapNode ::
  "nat \<Rightarrow> nat option \<Rightarrow> nat option \<Rightarrow> key \<Rightarrow> jsval \<Rightarrow> state \<Rightarrow> node" where
  "makeMultiwayModeImmutableLinkedOrderedMapNode m previous nxt k v s =
     (let d = depth (mapStore s m);
          ver = version (mapStore s m);
          previousVersionMap = lom_set ver previous False [];
          previousDepthMap = lom_set d previousVersionMap False [];
          nextVersionMap = lom_set ver nxt False [];
          nextDepthMap = lom_set d nextVersionMap False []
      in makeNode (ByVersion previousDepthMap) (ByVersion nextDepthMap) k v)"

text \<open>
  The two nested \<open>forEach\<close> loops of \<open>findMultiwayModeMapNodeByDirection\<close>: a depth the
  map can see is searched for the first version that is a prefix of the map's; the walk
  stops when that yields a node, and goes on to the next cell when it yields nothing or
  \<open>null\<close>.
\<close>

fun find_walk ::
  "nat \<Rightarrow> string \<Rightarrow> (nat, (string, nat option) LinkedOrderedMap) LinkedOrderedMap \<Rightarrow> nat option" where
  "find_walk d ver [] = None"
| "find_walk d ver ((depthKey, v) # rest) =
     (if d \<ge> depthKey then
        (case find_version ver v of
           Some (Some n) \<Rightarrow> Some n
         | _ \<Rightarrow> find_walk d ver rest)
      else find_walk d ver rest)"

definition findMultiwayModeMapNodeByDirection :: "state \<Rightarrow> nat \<Rightarrow> nat \<Rightarrow> direction \<Rightarrow> nat option" where
  "findMultiwayModeMapNodeByDirection s m fromNode nextNodeDirection =
     (if (Some fromNode = tail (mapStore s m) \<and> nextNodeDirection = Next)
         \<or> (Some fromNode = head (mapStore s m) \<and> nextNodeDirection = Previous)
      then None
      else case direction_links (nodeStore s fromNode) nextNodeDirection of
             ByVersion directionMap \<Rightarrow>
               find_walk (depth (mapStore s m)) (version (mapStore s m)) directionMap
           | _ \<Rightarrow> None)"

text \<open>
  The version stack of the map's depth, made first when the depth has none, gets the
  node under the map's version.
\<close>

definition stack_set ::
  "nat \<Rightarrow> string \<Rightarrow> nat \<Rightarrow> (nat, (string, nat) LinkedOrderedMap) LinkedOrderedMap
     \<Rightarrow> (nat, (string, nat) LinkedOrderedMap) LinkedOrderedMap" where
  "stack_set d ver itemNode depthMap =
     lom_modify d (lom_set ver itemNode True)
       (if \<not> lom_has d depthMap then lom_set d [] True depthMap else depthMap)"

text \<open>
  As in single mode, a key that names an inherited property and has no cell makes
  \<open>heapMap[key].map[depth]\<close> a property of \<open>undefined\<close>: a TypeError before anything is
  written.
\<close>

definition updateMultiWayModeHeapMap :: "nat \<Rightarrow> nat \<Rightarrow> state \<Rightarrow> error option \<times> state" where
  "updateMultiWayModeHeapMap m itemNode s =
     (let h = heapMap (mapStore s m);
          d = depth (mapStore s m);
          ver = version (mapStore s m);
          k = element_key (nodeStore s itemNode)
      in case heapStore s h k of
           None \<Rightarrow>
             if inherited k then (Some TypeError, s)
             else (None, updHeap h k (HVersion (stack_set d ver itemNode [])) s)
         | Some (HVersion depthMap) \<Rightarrow>
             (None, updHeap h k (HVersion (stack_set d ver itemNode depthMap)) s)
         | Some _ \<Rightarrow> (Some TypeError, s))"

text \<open>
  The two nested loops of \<open>lookupMultiwayMode\<close>; a version stack of the heap map always
  holds a node.
\<close>

fun lookup_walk ::
  "nat \<Rightarrow> string \<Rightarrow> (nat, (string, nat) LinkedOrderedMap) LinkedOrderedMap \<Rightarrow> nat option" where
  "lookup_walk d ver [] = None"
| "lookup_walk d ver ((depthKey, v) # rest) =
     (if d \<ge> depthKey then
        (case find_version ver v of
           Some n \<Rightarrow> Some n
         | None \<Rightarrow> lookup_walk d ver rest)
      else lookup_walk d ver rest)"

definition lookupMultiwayMode :: "state \<Rightarrow> nat \<Rightarrow> key \<Rightarrow> error + found" where
  "lookupMultiwayMode s m k =
     (case heapStore s (heapMap (mapStore s m)) k of
        None \<Rightarrow> if inherited k then Inl TypeError else Inr NoNode
      | Some (HVersion depthMap) \<Rightarrow>
          Inr (lookup_return s
                 (case lookup_walk (depth (mapStore s m)) (version (mapStore s m)) depthMap of
                    Some n \<Rightarrow> IsNode n
                  | None \<Rightarrow> NoNode))
      | Some _ \<Rightarrow> Inl TypeError)"

text \<open>
  The version of a forked map. The earlier copy writes the child's number behind the
  ancestor's version and a separator, and the number alone for a child of the root; the
  later copy writes the number and a separator behind the ancestor's version.
\<close>

definition forked_version :: "engine \<Rightarrow> string \<Rightarrow> nat \<Rightarrow> string" where
  "forked_version e ancestorVersion count =
     (case e of
        Earlier \<Rightarrow>
          if length ancestorVersion = 0 then string_of_nat count
          else ancestorVersion @ MULTIWAY_MODE_MAP_TREE_DEPTH_VERSION_SEPARATOR e
               @ string_of_nat count
      | Later \<Rightarrow>
          ancestorVersion @ string_of_nat count @ MULTIWAY_MODE_MAP_TREE_DEPTH_VERSION_SEPARATOR e)"

definition forkMultiwayModeMap :: "nat \<Rightarrow> nat \<Rightarrow> state \<Rightarrow> state" where
  "forkMultiwayModeMap ancestor forkedMap s =
     (let count = childrenCount (mapStore s ancestor) + 1;
          s1 = updMap ancestor (\<lambda>a. a\<lparr>childrenCount := count\<rparr>) s;
          ancestorVersion = version (mapStore s1 ancestor)
      in updMap forkedMap
           (\<lambda>f. f\<lparr>version := forked_version (engine s) ancestorVersion count\<rparr>) s1)"

section \<open>Lightweight mode\<close>

definition bindLightweightModeNodes :: "nat \<Rightarrow> nat \<Rightarrow> nat \<Rightarrow> state \<Rightarrow> state" where
  "bindLightweightModeNodes m previousNode nextNode s =
     (let s1 = updNode previousNode (\<lambda>n. n\<lparr>node_next := Raw (Some nextNode)\<rparr>) s
      in updNode nextNode (\<lambda>n. n\<lparr>node_previous := Raw (Some previousNode)\<rparr>) s1)"

text \<open>
  A raw neighbour field read as a property: a node, or \<open>null\<close>. (A neighbour field of
  another mode's shape does not occur on a lightweight-mode node; it would be an object
  that is no node.)
\<close>

definition raw_link :: "links \<Rightarrow> found" where
  "raw_link l =
     (case l of
        Raw (Some n) \<Rightarrow> IsNode n
      | Raw None \<Rightarrow> NoNode
      | _ \<Rightarrow> NotANode)"

text \<open>
  \<open>heapMap[key]\<close> on a name that is no own property of the heap map, found along its
  prototype chain. When a node is the prototype, the node's own properties come first:
  \<open>previous\<close> and \<open>next\<close> (a node or \<open>null\<close>), \<open>element\<close> (an object that is no node) and,
  on the node that the later copy marks, \<open>isOrphanNode\<close> (the value \<open>true\<close>). Behind them,
  and when no node is the prototype, are the properties of \<open>Object.prototype\<close>.
\<close>

definition along_prototype_chain :: "state \<Rightarrow> nat \<Rightarrow> key \<Rightarrow> found" where
  "along_prototype_chain s h k =
     (case heapStore s h ''__proto__'' of
        Some (HNode p) \<Rightarrow>
          if k = ''previous'' then raw_link (node_previous (nodeStore s p))
          else if k = ''next'' then raw_link (node_next (nodeStore s p))
          else if k = ''element'' then NotANode
          else if k = ''isOrphanNode'' \<and> isOrphanNode (nodeStore s p) then NotANode
          else if inherited k then NotANode
          else NoNode
      | _ \<Rightarrow> if inherited k then NotANode else NoNode)"

text \<open>
  \<open>lookupLightweightMode\<close> is \<open>heapMap[key]\<close>: it throws nothing, and hands an inherited
  value to its caller as if it were a node.
\<close>

definition lookupLightweightMode :: "state \<Rightarrow> nat \<Rightarrow> key \<Rightarrow> error + found" where
  "lookupLightweightMode s m k =
     (let h = heapMap (mapStore s m)
      in Inr (lookup_return s
                (case heapStore s h k of
                   Some (HNode n) \<Rightarrow> IsNode n
                 | Some _ \<Rightarrow> NotANode
                 | None \<Rightarrow> along_prototype_chain s h k)))"

text \<open>
  \<open>heapMap[key] = itemNode\<close> makes or overwrites an own property; for the key
  \<open>__proto__\<close> it makes the node the prototype of the heap map, which is the cell under
  that name. It throws nothing.
\<close>

definition updateLightweightModeHeapMap :: "nat \<Rightarrow> nat \<Rightarrow> state \<Rightarrow> error option \<times> state" where
  "updateLightweightModeHeapMap m itemNode s =
     (None, updHeap (heapMap (mapStore s m)) (element_key (nodeStore s itemNode))
              (HNode itemNode) s)"

definition findLightweightModeMapNodeByDirection :: "state \<Rightarrow> nat \<Rightarrow> nat \<Rightarrow> direction \<Rightarrow> nat option" where
  "findLightweightModeMapNodeByDirection s m fromNode nextNodeDirection =
     (case direction_links (nodeStore s fromNode) nextNodeDirection of
        Raw r \<Rightarrow> r
      | _ \<Rightarrow> None)"

definition makeLightweightModeImmutableLinkedOrderedMapNode ::
  "nat \<Rightarrow> nat option \<Rightarrow> nat option \<Rightarrow> key \<Rightarrow> jsval \<Rightarrow> state \<Rightarrow> node" where
  "makeLightweightModeImmutableLinkedOrderedMapNode m previous nxt k v s =
     makeNode (Raw previous) (Raw nxt) k v"

section \<open>Dispatch on the mode of a map\<close>

text \<open>
  \<open>ImmutableLinkedOrderedMapForMode[map.mode].f\<close>. A map, its heap map and its nodes are
  all built under one mode (a fork copies the mode, and \<open>mode\<close> has no setter), so the
  branches of the per-mode functions for a neighbour field or heap cell of another
  mode's shape are never taken.
\<close>

definition lookup :: "state \<Rightarrow> nat \<Rightarrow> key \<Rightarrow> error + found" where
  "lookup s m k =
     (case mode (mapStore s m) of
        SINGLE \<Rightarrow> lookupSingleMode s m k
      | MULTIWAY \<Rightarrow> lookupMultiwayMode s m k
      | LIGHTWEIGHT \<Rightarrow> lookupLightweightMode s m k)"

definition updateHeapMap :: "nat \<Rightarrow> nat \<Rightarrow> state \<Rightarrow> error option \<times> state" where
  "updateHeapMap m itemNode s =
     (case mode (mapStore s m) of
        SINGLE \<Rightarrow> updateSingleModeHeapMap m itemNode s
      | MULTIWAY \<Rightarrow> updateMultiWayModeHeapMap m itemNode s
      | LIGHTWEIGHT \<Rightarrow> updateLightweightModeHeapMap m itemNode s)"

definition findMapNodeByDirection :: "state \<Rightarrow> nat \<Rightarrow> nat \<Rightarrow> direction \<Rightarrow> nat option" where
  "findMapNodeByDirection s m fromNode nextNodeDirection =
     (case mode (mapStore s m) of
        SINGLE \<Rightarrow> findSingleModeMapNodeByDirection s m fromNode nextNodeDirection
      | MULTIWAY \<Rightarrow> findMultiwayModeMapNodeByDirection s m fromNode nextNodeDirection
      | LIGHTWEIGHT \<Rightarrow> findLightweightModeMapNodeByDirection s m fromNode nextNodeDirection)"

text \<open>Builds the node and gives it an address: the node object exists from here on.\<close>

definition makeImmutableLinkedOrderedMapNode ::
  "nat \<Rightarrow> nat option \<Rightarrow> nat option \<Rightarrow> key \<Rightarrow> jsval \<Rightarrow> state \<Rightarrow> nat \<times> state" where
  "makeImmutableLinkedOrderedMapNode m previous nxt k v s =
     allocNode
       (case mode (mapStore s m) of
          SINGLE \<Rightarrow> makeSingleModeImmutableLinkedOrderedMapNode m previous nxt k v s
        | MULTIWAY \<Rightarrow> makeMultiwayModeImmutableLinkedOrderedMapNode m previous nxt k v s
        | LIGHTWEIGHT \<Rightarrow> makeLightweightModeImmutableLinkedOrderedMapNode m previous nxt k v s)
       s"

definition bindNodes :: "nat \<Rightarrow> nat \<Rightarrow> nat \<Rightarrow> state \<Rightarrow> state" where
  "bindNodes m previousNode nextNode s =
     (case mode (mapStore s m) of
        SINGLE \<Rightarrow> bindSingleModeNodes m previousNode nextNode s
      | MULTIWAY \<Rightarrow> bindMultiwayModeNodes m previousNode nextNode s
      | LIGHTWEIGHT \<Rightarrow> bindLightweightModeNodes m previousNode nextNode s)"

section \<open>Creating and forking maps\<close>

text \<open>
  \<open>newMapFromMode\<close> followed by \<open>hydrate\<close>: the constructor of the mode's class clears
  \<open>mutationOperationOccurred\<close> (single, lightweight) or \<open>childrenCount\<close> (multiway), and
  \<open>hydrate\<close> writes the other fields.
\<close>

definition hydrate ::
  "nat \<Rightarrow> nat \<Rightarrow> int \<Rightarrow> string \<Rightarrow> mode \<Rightarrow> nat option \<Rightarrow> nat option \<Rightarrow> nat option \<Rightarrow> imap" where
  "hydrate h d len kpn md headNode tailNode ancestor =
     \<lparr>heapMap = h, depth = d, mlength = len, keyPropName = kpn, mode = md,
      head = headNode, tail = tailNode, ancestorMap = ancestor,
      shouldNextForEachBreak = False, change = None,
      version = MULTIWAY_MODE_INITIAL_MAP_TREE_DEPTH_VERSION,
      childrenCount = 0, mutationOperationOccurred = False\<rparr>"

definition allocMap :: "imap \<Rightarrow> state \<Rightarrow> nat \<times> state" where
  "allocMap m s =
     (mapCount s, s\<lparr>mapStore := (mapStore s)(mapCount s := m), mapCount := mapCount s + 1\<rparr>)"

definition hydrateNew :: "string \<Rightarrow> mode \<Rightarrow> state \<Rightarrow> nat \<times> state" where
  "hydrateNew kpn md s =
     (let h = heapCount s;
          s1 = s\<lparr>heapStore := (heapStore s)(h := Map.empty), heapCount := h + 1\<rparr>
      in allocMap (hydrate h 0 0 kpn md None None None) s1)"

definition forkMap :: "nat \<Rightarrow> state \<Rightarrow> nat \<times> state" where
  "forkMap m s =
     (let old = mapStore s m;
          (newMap, s1) =
             allocMap (hydrate (heapMap old) (depth old) (mlength old) (keyPropName old)
                         (mode old) (head old) (tail old) (Some m)) s;
          s2 = updMap newMap (\<lambda>f. f\<lparr>depth := depth f + 1\<rparr>) s1
      in (newMap, (case mode old of MULTIWAY \<Rightarrow> forkMultiwayModeMap m newMap s2 | _ \<Rightarrow> s2)))"

text \<open>
  The node that stands for a removed key. The later copy marks it
  (\<open>newNode.isOrphanNode = true\<close>) before it enters the heap map.
\<close>

definition addImmutableLinkedOrderedMapOrphanNode ::
  "nat \<Rightarrow> key \<Rightarrow> state \<Rightarrow> error option \<times> state" where
  "addImmutableLinkedOrderedMapOrphanNode m k s =
     (let (newNode, s1) = makeImmutableLinkedOrderedMapNode m None None k Undefined s;
          s2 = (case engine s1 of
                  Earlier \<Rightarrow> s1
                | Later \<Rightarrow> updNode newNode (\<lambda>n. n\<lparr>isOrphanNode := True\<rparr>) s1)
      in updateHeapMap m newNode s2)"

definition mapChange :: "nat \<Rightarrow> change \<Rightarrow> state \<Rightarrow> state" where
  "mapChange m c s = updMap m (\<lambda>x. x\<lparr>change := Some c\<rparr>) s"

section \<open>The factory\<close>

text \<open>
  The table of seen keys is a plain object: \<open>keysMap[key]\<close> is truthy for a recorded key
  and for every name that objects inherit.
\<close>

definition keysMap_has :: "key list \<Rightarrow> key \<Rightarrow> bool" where
  "keysMap_has keysMap k = (k \<in> set keysMap \<or> inherited k)"

text \<open>
  \<open>map.length++ && (keysMap[key] = true)\<close>: the postfix increment yields the length
  before the increment, so the key is recorded only when that was not zero.
\<close>

definition increment_length_and_record ::
  "nat \<Rightarrow> key \<Rightarrow> key list \<Rightarrow> state \<Rightarrow> key list \<times> state" where
  "increment_length_and_record m k keysMap s =
     (let old = mlength (mapStore s m);
          s1 = updMap m (\<lambda>x. x\<lparr>mlength := old + 1\<rparr>) s
      in (if old \<noteq> 0 then k # keysMap else keysMap, s1))"

text \<open>
  One turn of the \<open>for\<close> loop of \<open>appendInitialItemsToMap\<close>, for an item whose key
  \<open>keysMap\<close> does not have. The loop carries the error, if one was thrown, \<open>keysMap\<close>,
  \<open>lastNode\<close> and the store.
\<close>

definition appendInitialItem ::
  "nat \<Rightarrow> key \<Rightarrow> jsval \<Rightarrow> key list \<Rightarrow> nat \<Rightarrow> state \<Rightarrow> error option \<times> key list \<times> nat \<times> state" where
  "appendInitialItem m k v keysMap lastNode s =
     (let (node, s1) = makeImmutableLinkedOrderedMapNode m None None k v s
      in case updateHeapMap m node s1 of
           (Some e, s2) \<Rightarrow> (Some e, keysMap, lastNode, s2)
         | (None, s2) \<Rightarrow>
             (let s3 = bindNodes m node lastNode s2;
                  (keysMap', s4) = increment_length_and_record m k keysMap s3
              in (None, keysMap', node, s4)))"

text \<open>The loop, over the items below the last one from the highest index down.\<close>

fun appendInitialItems_loop ::
  "nat \<Rightarrow> item list \<Rightarrow> error option \<times> key list \<times> nat \<times> state
     \<Rightarrow> error option \<times> key list \<times> nat \<times> state" where
  "appendInitialItems_loop m [] acc = acc"
| "appendInitialItems_loop m (it # rest) (thrown, keysMap, lastNode, s) =
     (if thrown \<noteq> None then (thrown, keysMap, lastNode, s)
      else if keysMap_has keysMap (fst (keyValueForItem it))
      then appendInitialItems_loop m rest (thrown, keysMap, lastNode, s)
      else appendInitialItems_loop m rest
             (appendInitialItem m (fst (keyValueForItem it)) (snd (keyValueForItem it))
                keysMap lastNode s))"

text \<open>
  What follows the new tail in \<open>appendInitialItemsToMap\<close>:
  \<open>keysMap[tailKey] || (map.length++ && (keysMap[tailKey] = true))\<close>, then the loop or, for
  a single item, the binding to the previous tail.
\<close>

definition appendInitialItems_rest ::
  "nat \<Rightarrow> item list \<Rightarrow> key \<Rightarrow> nat \<Rightarrow> nat option \<Rightarrow> state \<Rightarrow> error option \<times> state" where
  "appendInitialItems_rest m items tailKey newTail previousTail s =
     (let (keysMap, s1) =
            (if keysMap_has [] tailKey then ([], s)
             else increment_length_and_record m tailKey [] s)
      in if length items > 1 then
           (let (thrown, keysMap', lastNode, s2) =
                  appendInitialItems_loop m (rev (butlast items)) (None, keysMap, newTail, s1)
            in if thrown \<noteq> None then (thrown, s2)
               else if head (mapStore s2 m) = None
               then (None, updMap m (\<lambda>x. x\<lparr>head := Some lastNode\<rparr>) s2)
               else (None, s2))
         else
           (case previousTail of
              None \<Rightarrow> (None, updMap m (\<lambda>x. x\<lparr>head := Some newTail\<rparr>) s1)
            | Some pt \<Rightarrow> (None, bindNodes m pt newTail s1)))"

definition appendInitialItemsToMap :: "nat \<Rightarrow> item list \<Rightarrow> state \<Rightarrow> error option \<times> state" where
  "appendInitialItemsToMap m items s =
     (if items = [] then (None, s)
      else
        (let (tailKey, tailValue) = keyValueForItem (last items);
             (newTail, s1) = makeImmutableLinkedOrderedMapNode m None None tailKey tailValue s
         in case updateHeapMap m newTail s1 of
              (Some e, s2) \<Rightarrow> (Some e, s2)
            | (None, s2) \<Rightarrow>
                appendInitialItems_rest m items tailKey newTail (tail (mapStore s2 m))
                  (updMap m (\<lambda>x. x\<lparr>tail := Some newTail\<rparr>) s2)))"

text \<open>
  \<open>newLazyMap\<close> of the later copy sets the length to the number of the items and wraps
  the map in \<open>lazyObject\<close> of the package \<open>pigretto\<close>, which is no code of this repository:
  the proxy is to run \<open>appendInitialItemsToMap\<close> at the first use of the map. The model
  has the map as \<open>newLazyMap\<close> leaves it, and not the proxy around it.
\<close>

definition newLazyMap :: "nat \<Rightarrow> item list \<Rightarrow> state \<Rightarrow> state" where
  "newLazyMap m initialItems s = updMap m (\<lambda>x. x\<lparr>mlength := int (length initialItems)\<rparr>) s"

text \<open>
  The factory \<open>newImmutableLinkedOrderedMap\<close>, with its options \<open>initialItems\<close>,
  \<open>keyPropName\<close>, \<open>mode\<close> and \<open>lazy\<close> (which the earlier copy does not have and does not
  read). \<open>addInitialItemsToMap\<close> of the earlier copy only calls
  \<open>appendInitialItemsToMap\<close>.
\<close>

definition addInitialItemsToMap :: "nat \<Rightarrow> item list \<Rightarrow> state \<Rightarrow> error option \<times> state" where
  "addInitialItemsToMap m initialItems s = appendInitialItemsToMap m initialItems s"

definition newImmutableLinkedOrderedMap ::
  "item list \<Rightarrow> string \<Rightarrow> option_value option \<Rightarrow> bool \<Rightarrow> state \<Rightarrow> (error + nat) \<times> state" where
  "newImmutableLinkedOrderedMap initialItems kpn givenMode lazy s =
     (case newMapFromMode (resolveMode (engine s) givenMode) of
        Inl e \<Rightarrow> (Inl e, s)
      | Inr md \<Rightarrow>
          (let (m, s1) = hydrateNew kpn md s
           in if lazy \<and> engine s = Later then (Inr m, newLazyMap m initialItems s1)
              else case addInitialItemsToMap m initialItems s1 of
                     (Some e, s2) \<Rightarrow> (Inl e, s2)
                   | (None, s2) \<Rightarrow> (Inr m, s2)))"

section \<open>set\<close>

text \<open>The local variables of \<open>set\<close> that its loop and its closures share.\<close>

record set_locals =
  l_map :: "nat option"
  l_justForked :: bool
  l_inserted :: "(key \<times> jsval) list"
  l_updated :: "(key \<times> jsval) list"
  l_keysMap :: "key list"
  l_firstPrepend :: bool
  l_appendOperationOldTail :: "nat option"
  l_lastPrepend :: "nat option"
  l_thrown :: "error option"

definition initial_set_locals :: set_locals where
  "initial_set_locals =
     \<lparr>l_map = None, l_justForked = False, l_inserted = [], l_updated = [], l_keysMap = [],
      l_firstPrepend = True, l_appendOperationOldTail = None, l_lastPrepend = None,
      l_thrown = None\<rparr>"

text \<open>\<open>map = (map && ((justForked = false) || map)) || ((justForked = true) && forkMap(this))\<close>\<close>

definition set_fork :: "nat \<Rightarrow> set_locals \<Rightarrow> state \<Rightarrow> nat \<times> set_locals \<times> state" where
  "set_fork this l s =
     (case l_map l of
        Some m \<Rightarrow> (m, l\<lparr>l_justForked := False\<rparr>, s)
      | None \<Rightarrow>
          (let (m, s1) = forkMap this s
           in (m, l\<lparr>l_map := Some m, l_justForked := True\<rparr>, s1)))"

text \<open>
  The closure \<open>nodes\<close>, in its append and its prepend version. The result is \<open>None\<close> for
  \<open>false\<close> and \<open>Some newNext\<close> for the object \<open>{newNext}\<close>.
\<close>

definition set_nodes ::
  "bool \<Rightarrow> nat \<Rightarrow> nat \<Rightarrow> set_locals \<Rightarrow> state \<Rightarrow> nat option option \<times> set_locals \<times> state" where
  "set_nodes prependMissing m newNode l s =
     (if \<not> prependMissing then
        (if l_firstPrepend l then
           (let l1 = l\<lparr>l_firstPrepend := False\<rparr>;
                l2 = (case tail (mapStore s m) of
                        Some t \<Rightarrow> l1\<lparr>l_appendOperationOldTail := Some t\<rparr>
                      | None \<Rightarrow> l1);
                s1 = updMap m (\<lambda>x. x\<lparr>tail := Some newNode\<rparr>) s
            in (None, l2\<lparr>l_lastPrepend := Some newNode\<rparr>, s1))
         else (Some (l_lastPrepend l), l\<lparr>l_lastPrepend := Some newNode\<rparr>, s))
      else
        (let oldHead = head (mapStore s m);
             s1 = updMap m (\<lambda>x. x\<lparr>head := Some newNode\<rparr>) s
         in (Some oldHead, l, s1)))"

text \<open>\<open>map.length++\<close> and \<open>inserted.unshift({key, value})\<close>, which end the branch below.\<close>

definition set_counted ::
  "nat \<Rightarrow> key \<Rightarrow> jsval \<Rightarrow> set_locals \<Rightarrow> state \<Rightarrow> set_locals \<times> state" where
  "set_counted m k v l s =
     (l\<lparr>l_inserted := (k, v) # l_inserted l\<rparr>,
      updMap m (\<lambda>x. x\<lparr>mlength := mlength x + 1\<rparr>) s)"

text \<open>
  The new node linked into the forked map. Binding it to a \<open>null\<close> neighbour
  dereferences \<open>null\<close>: the TypeError leaves the loop before the length is counted.
\<close>

definition set_link ::
  "nat \<Rightarrow> bool \<Rightarrow> key \<Rightarrow> jsval \<Rightarrow> nat \<Rightarrow> set_locals \<Rightarrow> state \<Rightarrow> set_locals \<times> state" where
  "set_link m prependMissing k v newNode l s =
     (if tail (mapStore s m) = None \<and> prependMissing then
        set_counted m k v l (updMap m (\<lambda>x. x\<lparr>tail := Some newNode, head := Some newNode\<rparr>) s)
      else
        (let (nodesRet, l2, s4) = set_nodes prependMissing m newNode l s
         in case nodesRet of
              None \<Rightarrow> set_counted m k v l2 s4
            | Some None \<Rightarrow> (l2\<lparr>l_thrown := Some TypeError\<rparr>, s4)
            | Some (Some newNext) \<Rightarrow> set_counted m k v l2 (bindNodes m newNode newNext s4)))"

text \<open>The branch for a key that the lookup does not find.\<close>

definition set_insert ::
  "nat \<Rightarrow> bool \<Rightarrow> key \<Rightarrow> jsval \<Rightarrow> set_locals \<Rightarrow> state \<Rightarrow> set_locals \<times> state" where
  "set_insert this prependMissing k v l s =
     (let (m, l1, s1) = set_fork this l s;
          (newNode, s2) = makeImmutableLinkedOrderedMapNode m None None k v s1
      in case updateHeapMap m newNode s2 of
           (Some e, s3) \<Rightarrow> (l1\<lparr>l_thrown := Some e\<rparr>, s3)
         | (None, s3) \<Rightarrow> set_link m prependMissing k v newNode l1 s3)"

text \<open>The branch for a key that is found with a value that is not \<open>===\<close> the new one.\<close>

definition set_neighbour :: "state \<Rightarrow> nat \<Rightarrow> nat \<Rightarrow> bool \<Rightarrow> nat \<Rightarrow> direction \<Rightarrow> nat option" where
  "set_neighbour s this m justForked node dir =
     (if \<not> justForked then
        (case findMapNodeByDirection s m node dir of
           Some n \<Rightarrow> Some n
         | None \<Rightarrow> findMapNodeByDirection s this node dir)
      else findMapNodeByDirection s this node dir)"

definition set_relink ::
  "nat \<Rightarrow> key \<Rightarrow> jsval \<Rightarrow> nat \<Rightarrow> nat option \<Rightarrow> nat option \<Rightarrow> set_locals \<Rightarrow> state
     \<Rightarrow> set_locals \<times> state" where
  "set_relink m k v newNode previous nxt l s =
     (let s4 = (case previous of
                  Some p \<Rightarrow> bindNodes m p newNode s
                | None \<Rightarrow> updMap m (\<lambda>x. x\<lparr>head := Some newNode\<rparr>) s);
          (l2, s5) = (case nxt of
                  Some n \<Rightarrow> (l, bindNodes m newNode n s4)
                | None \<Rightarrow>
                    if l_appendOperationOldTail l \<noteq> None
                    then (l\<lparr>l_appendOperationOldTail := Some newNode\<rparr>, s4)
                    else (l, updMap m (\<lambda>x. x\<lparr>tail := Some newNode\<rparr>) s4))
      in (l2\<lparr>l_updated := (k, v) # l_updated l2\<rparr>, s5))"

definition set_update ::
  "nat \<Rightarrow> key \<Rightarrow> jsval \<Rightarrow> nat \<Rightarrow> set_locals \<Rightarrow> state \<Rightarrow> set_locals \<times> state" where
  "set_update this k v node l s =
     (let (m, l1, s1) = set_fork this l s;
          previous = set_neighbour s1 this m (l_justForked l1) node Previous;
          nxt = set_neighbour s1 this m (l_justForked l1) node Next;
          (newNode, s2) = makeImmutableLinkedOrderedMapNode m None None k v s1
      in case updateHeapMap m newNode s2 of
           (Some e, s3) \<Rightarrow> (l1\<lparr>l_thrown := Some e\<rparr>, s3)
         | (None, s3) \<Rightarrow> set_relink m k v newNode previous nxt l1 s3)"

text \<open>
  One turn of the \<open>for\<close> loop of \<open>set\<close>, after \<open>keysMap[key] = true\<close>: the lookup and its
  three branches.
\<close>

definition set_key ::
  "nat \<Rightarrow> bool \<Rightarrow> key \<Rightarrow> jsval \<Rightarrow> set_locals \<Rightarrow> state \<Rightarrow> set_locals \<times> state" where
  "set_key this prependMissing k v l s =
     (case lookup s this k of
        Inl e \<Rightarrow> (l\<lparr>l_thrown := Some e\<rparr>, s)
      | Inr NoNode \<Rightarrow> set_insert this prependMissing k v l s
      | Inr NotANode \<Rightarrow> (l\<lparr>l_thrown := Some TypeError\<rparr>, s)
      | Inr (IsNode node) \<Rightarrow>
          if element_value (nodeStore s node) \<noteq> v
          then set_update this k v node l s
          else (l, s))"

text \<open>
  One turn of the loop. \<open>if (keysMap[key]) continue\<close> passes over a key seen before in
  this call and over every key that names an inherited property.
\<close>

definition set_item :: "nat \<Rightarrow> bool \<Rightarrow> item \<Rightarrow> set_locals \<times> state \<Rightarrow> set_locals \<times> state" where
  "set_item this prependMissing it ls =
     (if l_thrown (fst ls) \<noteq> None then ls
      else if keysMap_has (l_keysMap (fst ls)) (fst (keyValueForItem it)) then ls
      else set_key this prependMissing (fst (keyValueForItem it)) (snd (keyValueForItem it))
             ((fst ls)\<lparr>l_keysMap := fst (keyValueForItem it) # l_keysMap (fst ls)\<rparr>) (snd ls))"

text \<open>The loop takes the items from the highest index down: it is run on \<open>rev items\<close>.\<close>

fun set_loop :: "nat \<Rightarrow> bool \<Rightarrow> item list \<Rightarrow> set_locals \<times> state \<Rightarrow> set_locals \<times> state" where
  "set_loop this prependMissing [] ls = ls"
| "set_loop this prependMissing (it # rest) ls =
     set_loop this prependMissing rest (set_item this prependMissing it ls)"

definition set_loopEnd :: "bool \<Rightarrow> set_locals \<Rightarrow> state \<Rightarrow> state" where
  "set_loopEnd prependMissing l s =
     (if prependMissing then s
      else case (l_lastPrepend l, l_map l) of
             (Some lastPrepend, Some m) \<Rightarrow>
               (let s1 = (if head (mapStore s m) = None
                          then updMap m (\<lambda>x. x\<lparr>head := Some lastPrepend\<rparr>) s
                          else s)
                in case l_appendOperationOldTail l of
                     Some oldTail \<Rightarrow> bindNodes m oldTail lastPrepend s1
                   | None \<Rightarrow> s1)
           | _ \<Rightarrow> s)"

text \<open>
  \<open>ImmutableLinkedOrderedMap.prototype.set\<close>. The argument is the array of items; a
  single item is the array of that item.
\<close>

definition ImmutableLinkedOrderedMap_set ::
  "nat \<Rightarrow> item list \<Rightarrow> bool \<Rightarrow> state \<Rightarrow> (error + nat) \<times> state" where
  "ImmutableLinkedOrderedMap_set this items prependMissing s =
     (if items = [] then (Inr this, s)
      else
        (let (l, s1) = set_loop this prependMissing (rev items) (initial_set_locals, s)
         in case l_thrown l of
              Some e \<Rightarrow> (Inl e, s1)
            | None \<Rightarrow>
                (let s2 = set_loopEnd prependMissing l s1
                 in case l_map l of
                      None \<Rightarrow> (Inr this, s2)
                    | Some m \<Rightarrow>
                        (Inr m, mapChange m
                           (ChangeSet (l_inserted l) (l_updated l) prependMissing) s2))))"

section \<open>replace\<close>

text \<open>
  Both branches of \<open>replace\<close> treat a node \<open>existent\<close> that the item's key already has
  in the same way at first: the new node takes its place as head and as tail.
\<close>

definition replace_endpoints :: "nat \<Rightarrow> nat \<Rightarrow> nat \<Rightarrow> state \<Rightarrow> state" where
  "replace_endpoints m existent newNode s =
     (let a1 = (if Some existent = head (mapStore s m)
                then updMap m (\<lambda>x. x\<lparr>head := Some newNode\<rparr>) s else s)
      in if Some existent = tail (mapStore a1 m)
         then updMap m (\<lambda>x. x\<lparr>tail := Some newNode\<rparr>) a1 else a1)"

text \<open>The new node bound between the neighbours that \<open>existent\<close> has in \<open>this\<close>.\<close>

definition replace_rebind :: "nat \<Rightarrow> nat \<Rightarrow> nat \<Rightarrow> nat \<Rightarrow> state \<Rightarrow> state" where
  "replace_rebind this m existent newNode s =
     (let existentPrevious = findMapNodeByDirection s this existent Previous;
          existentNext = findMapNodeByDirection s this existent Next;
          a3 = (case existentPrevious of
                  Some p \<Rightarrow> bindNodes m p newNode s | None \<Rightarrow> s)
      in case existentNext of
           Some n \<Rightarrow> bindNodes m newNode n a3 | None \<Rightarrow> a3)"

text \<open>The new node appended to, or prepended to, the forked map.\<close>

definition replace_add :: "nat \<Rightarrow> nat \<Rightarrow> bool \<Rightarrow> state \<Rightarrow> state" where
  "replace_add m newNode prependMissing s =
     (let b1 = updMap m (\<lambda>x. x\<lparr>mlength := mlength x + 1\<rparr>) s
      in if \<not> prependMissing then
           (let newPrevious = tail (mapStore b1 m);
                b2 = updMap m (\<lambda>x. x\<lparr>tail := Some newNode\<rparr>) b1
            in case newPrevious of
                 None \<Rightarrow> updMap m (\<lambda>x. x\<lparr>head := tail x\<rparr>) b2
               | Some np \<Rightarrow> bindNodes m np newNode b2)
         else
           (let newNext = head (mapStore b1 m);
                b2 = updMap m (\<lambda>x. x\<lparr>head := Some newNode\<rparr>) b1
            in case newNext of
                 None \<Rightarrow> updMap m (\<lambda>x. x\<lparr>tail := head x\<rparr>) b2
               | Some nn \<Rightarrow> bindNodes m newNode nn b2))"

text \<open>
  The branch of \<open>replace\<close> for an \<open>oldKey\<close> that the lookup does not find, with
  \<open>addMissing\<close>, from the point where the new node is in the heap map: the new node takes
  the place of a node that \<open>existentNodeForKey\<close> holds with another value, and is added
  at an end of the map when \<open>existentNodeForKey\<close> is nothing.
\<close>

definition replace_missing_link ::
  "nat \<Rightarrow> nat \<Rightarrow> key \<Rightarrow> key \<Rightarrow> jsval \<Rightarrow> nat \<Rightarrow> found \<Rightarrow> bool \<Rightarrow> state \<Rightarrow> (error + nat) \<times> state" where
  "replace_missing_link this m oldKey k v newNode existentNodeForKey prependMissing s =
     (case existentNodeForKey of
        NotANode \<Rightarrow> (Inl TypeError, s)
      | IsNode existent \<Rightarrow>
          if element_value (nodeStore s existent) \<noteq> v
          then (Inr m, mapChange m (ChangeReplace oldKey k v False True True prependMissing)
                         (replace_rebind this m existent newNode
                            (replace_endpoints m existent newNode s)))
          else (Inr m, mapChange m (ChangeReplace oldKey k v False False True prependMissing) s)
      | NoNode \<Rightarrow>
          (Inr m, mapChange m (ChangeReplace oldKey k v True False False prependMissing)
                    (replace_add m newNode prependMissing s)))"

text \<open>
  The branch itself. The lookup of \<open>existentNodeForKey\<close> reads the local \<open>key\<close> before the
  item's key is assigned to it, when it still is \<open>undefined\<close>: the property it indexes
  the heap map with is the string of \<open>undefined\<close>.
\<close>

definition replace_missing ::
  "nat \<Rightarrow> key \<Rightarrow> item \<Rightarrow> bool \<Rightarrow> state \<Rightarrow> (error + nat) \<times> state" where
  "replace_missing this oldKey it prependMissing s =
     (let (m, s1) = forkMap this s
      in case lookup s1 this ''undefined'' of
           Inl e \<Rightarrow> (Inl e, s1)
         | Inr existentNodeForKey \<Rightarrow>
             (let (k, v) = keyValueForItem it;
                  (newNode, s2) = makeImmutableLinkedOrderedMapNode m None None k v s1
              in case updateHeapMap m newNode s2 of
                   (Some e, s3) \<Rightarrow> (Inl e, s3)
                 | (None, s3) \<Rightarrow>
                     replace_missing_link this m oldKey k v newNode existentNodeForKey
                       prependMissing s3))"

text \<open>
  The found branch binds the new node in front of and behind \<open>existent\<close>'s place, where
  \<open>node\<close> is the node of \<open>oldKey\<close> and \<open>previous\<close> and \<open>nxt\<close> are its neighbours.
\<close>

definition splice_previous ::
  "nat \<Rightarrow> nat \<Rightarrow> nat \<Rightarrow> nat option \<Rightarrow> nat option \<Rightarrow> state \<Rightarrow> state" where
  "splice_previous m node newNode existentPrevious previous s =
     (case existentPrevious of
        None \<Rightarrow> s
      | Some ep \<Rightarrow>
          if node \<noteq> ep then bindNodes m ep newNode s
          else (case previous of
                  Some p \<Rightarrow> bindNodes m p newNode s
                | None \<Rightarrow> updMap m (\<lambda>x. x\<lparr>head := Some newNode\<rparr>) s))"

definition splice_next ::
  "nat \<Rightarrow> nat \<Rightarrow> nat \<Rightarrow> nat option \<Rightarrow> nat option \<Rightarrow> state \<Rightarrow> state" where
  "splice_next m node newNode existentNext nxt s =
     (case existentNext of
        None \<Rightarrow> s
      | Some en \<Rightarrow>
          if node \<noteq> en then bindNodes m newNode en s
          else (case nxt of
                  Some n \<Rightarrow> bindNodes m newNode n s
                | None \<Rightarrow> updMap m (\<lambda>x. x\<lparr>tail := Some newNode\<rparr>) s))"

definition replace_splice ::
  "nat \<Rightarrow> nat \<Rightarrow> nat \<Rightarrow> nat \<Rightarrow> nat \<Rightarrow> nat option \<Rightarrow> nat option \<Rightarrow> state \<Rightarrow> state" where
  "replace_splice this m node existent newNode previous nxt s =
     (let a2 = replace_endpoints m existent newNode s;
          existentPrevious = findMapNodeByDirection a2 this existent Previous;
          existentNext = findMapNodeByDirection a2 this existent Next
      in splice_next m node newNode existentNext nxt
           (splice_previous m node newNode existentPrevious previous a2))"

text \<open>The new node put in the place of the node of \<open>oldKey\<close>.\<close>

definition replace_in_place :: "nat \<Rightarrow> nat \<Rightarrow> nat option \<Rightarrow> nat option \<Rightarrow> state \<Rightarrow> state" where
  "replace_in_place m newNode previous nxt s =
     (case previous of
        None \<Rightarrow>
          (let d1 = updMap m (\<lambda>x. x\<lparr>head := Some newNode\<rparr>) s
           in case nxt of
                None \<Rightarrow> updMap m (\<lambda>x. x\<lparr>tail := Some newNode\<rparr>) d1
              | Some n \<Rightarrow> bindNodes m newNode n d1)
      | Some p \<Rightarrow>
          (case nxt of
             None \<Rightarrow> bindNodes m p newNode (updMap m (\<lambda>x. x\<lparr>tail := Some newNode\<rparr>) s)
           | Some n \<Rightarrow> bindNodes m newNode n (bindNodes m p newNode s)))"

text \<open>
  The found branch from the point where \<open>existentNodeForKey\<close> is known (it is nothing
  when \<open>oldKey\<close> and the item's key are the same string): the splice, the lowered
  length, or the new node in the place of the old one, and then the heap map.
\<close>

definition replace_found_link ::
  "nat \<Rightarrow> nat \<Rightarrow> key \<Rightarrow> nat \<Rightarrow> key \<Rightarrow> jsval \<Rightarrow> nat \<Rightarrow> nat option \<Rightarrow> nat option \<Rightarrow> found \<Rightarrow> bool
     \<Rightarrow> state \<Rightarrow> (error + nat) \<times> state" where
  "replace_found_link this m oldKey node k v newNode previous nxt existentNodeForKey
     prependMissing s =
     (case existentNodeForKey of
        NotANode \<Rightarrow> (Inl TypeError, s)
      | IsNode existent \<Rightarrow>
          (case updateHeapMap m newNode
                  (updMap m (\<lambda>x. x\<lparr>mlength := mlength x - 1\<rparr>)
                     (if element_value (nodeStore s existent) \<noteq> v
                      then replace_splice this m node existent newNode previous nxt s
                      else s)) of
             (Some e, s5) \<Rightarrow> (Inl e, s5)
           | (None, s5) \<Rightarrow>
               (Inr m, mapChange m (ChangeReplace oldKey k v False True True prependMissing) s5))
      | NoNode \<Rightarrow>
          (case updateHeapMap m newNode (replace_in_place m newNode previous nxt s) of
             (Some e, s5) \<Rightarrow> (Inl e, s5)
           | (None, s5) \<Rightarrow>
               (Inr m, mapChange m (ChangeReplace oldKey k v False True False prependMissing) s5)))"

text \<open>
  The found branch, for a value that is not \<open>===\<close> the stored one. When the item's key
  is another string than \<open>oldKey\<close>, the old key gets its orphan node and the item's key
  is looked up in \<open>this\<close>.
\<close>

definition replace_found ::
  "nat \<Rightarrow> key \<Rightarrow> nat \<Rightarrow> key \<Rightarrow> jsval \<Rightarrow> bool \<Rightarrow> state \<Rightarrow> (error + nat) \<times> state" where
  "replace_found this oldKey node k v prependMissing s =
     (let (m, s1) = forkMap this s;
          (newNode, s2) = makeImmutableLinkedOrderedMapNode m None None k v s1;
          previous = findMapNodeByDirection s2 this node Previous;
          nxt = findMapNodeByDirection s2 this node Next
      in if oldKey \<noteq> k then
           (case addImmutableLinkedOrderedMapOrphanNode m oldKey s2 of
              (Some e, c1) \<Rightarrow> (Inl e, c1)
            | (None, c1) \<Rightarrow>
                (case lookup c1 this k of
                   Inl e \<Rightarrow> (Inl e, c1)
                 | Inr existentNodeForKey \<Rightarrow>
                     replace_found_link this m oldKey node k v newNode previous nxt
                       existentNodeForKey prependMissing c1))
         else replace_found_link this m oldKey node k v newNode previous nxt NoNode
                prependMissing s2)"

text \<open>
  \<open>replace\<close>. A value that is no node, handed over by the lookup of \<open>oldKey\<close>, takes the
  found branch, where reading its \<open>element.value\<close> throws.
\<close>

definition ImmutableLinkedOrderedMap_replace ::
  "nat \<Rightarrow> key \<Rightarrow> item \<Rightarrow> bool \<Rightarrow> bool \<Rightarrow> state \<Rightarrow> (error + nat) \<times> state" where
  "ImmutableLinkedOrderedMap_replace this oldKey it addMissing prependMissing s =
     (case lookup s this oldKey of
        Inl e \<Rightarrow> (Inl e, s)
      | Inr NoNode \<Rightarrow>
          if addMissing then replace_missing this oldKey it prependMissing s
          else (Inr this, s)
      | Inr NotANode \<Rightarrow> (Inl TypeError, s)
      | Inr (IsNode node) \<Rightarrow>
          if element_value (nodeStore s node) \<noteq> snd (keyValueForItem it)
          then replace_found this oldKey node (fst (keyValueForItem it))
                 (snd (keyValueForItem it)) prependMissing s
          else (Inr this, s))"

section \<open>unset and empty\<close>

text \<open>
  The repair of \<open>unset\<close> when the removed node is the head and has a next node \<open>n\<close>:
  a copy of \<open>n\<close>, made by the forked map, becomes the head.
\<close>

definition unset_head_link :: "nat \<Rightarrow> nat \<Rightarrow> nat \<Rightarrow> nat \<Rightarrow> state \<Rightarrow> state" where
  "unset_head_link this m n newHeadNode s =
     (let e3 = updMap m (\<lambda>x. x\<lparr>head := Some newHeadNode\<rparr>) s;
          nextNext = findMapNodeByDirection e3 this n Next;
          e4 = (case nextNext of
                  None \<Rightarrow> updMap m (\<lambda>x. x\<lparr>tail := Some newHeadNode\<rparr>) e3
                | Some nn \<Rightarrow> bindNodes m newHeadNode nn e3)
      in updMap m (\<lambda>x. x\<lparr>mlength := mlength x - 1\<rparr>) e4)"

definition unset_head :: "nat \<Rightarrow> nat \<Rightarrow> nat \<Rightarrow> state \<Rightarrow> error option \<times> state" where
  "unset_head this m n s =
     (let (newHeadNode, e1) =
            makeImmutableLinkedOrderedMapNode m None None
              (element_key (nodeStore s n)) (element_value (nodeStore s n)) s
      in case updateHeapMap m newHeadNode e1 of
           (Some e, e2) \<Rightarrow> (Some e, e2)
         | (None, e2) \<Rightarrow> (None, unset_head_link this m n newHeadNode e2))"

text \<open>The mirror image, when the removed node is the tail and has a previous node \<open>p\<close>.\<close>

definition unset_tail_link :: "nat \<Rightarrow> nat \<Rightarrow> nat \<Rightarrow> nat \<Rightarrow> state \<Rightarrow> state" where
  "unset_tail_link this m p newTailNode s =
     (let e3 = updMap m (\<lambda>x. x\<lparr>tail := Some newTailNode\<rparr>) s;
          previousPrevious = findMapNodeByDirection e3 this p Previous;
          e4 = (case previousPrevious of
                  None \<Rightarrow> updMap m (\<lambda>x. x\<lparr>head := Some newTailNode\<rparr>) e3
                | Some pp \<Rightarrow> bindNodes m pp newTailNode e3)
      in updMap m (\<lambda>x. x\<lparr>mlength := mlength x - 1\<rparr>) e4)"

definition unset_tail :: "nat \<Rightarrow> nat \<Rightarrow> nat \<Rightarrow> state \<Rightarrow> error option \<times> state" where
  "unset_tail this m p s =
     (let (newTailNode, e1) =
            makeImmutableLinkedOrderedMapNode m None None
              (element_key (nodeStore s p)) (element_value (nodeStore s p)) s
      in case updateHeapMap m newTailNode e1 of
           (Some e, e2) \<Rightarrow> (Some e, e2)
         | (None, e2) \<Rightarrow> (None, unset_tail_link this m p newTailNode e2))"

definition unset_repair ::
  "nat \<Rightarrow> nat \<Rightarrow> nat option \<Rightarrow> nat option \<Rightarrow> state \<Rightarrow> error option \<times> state" where
  "unset_repair this m previous nxt s =
     (case previous of
        None \<Rightarrow>
          (case nxt of
             None \<Rightarrow> (None, updMap m (\<lambda>x. x\<lparr>head := None, tail := None, mlength := 0\<rparr>) s)
           | Some n \<Rightarrow> unset_head this m n s)
      | Some p \<Rightarrow>
          (case nxt of
             None \<Rightarrow> unset_tail this m p s
           | Some n \<Rightarrow>
               (None, updMap m (\<lambda>x. x\<lparr>mlength := mlength x - 1\<rparr>) (bindNodes m p n s))))"

text \<open>The branch of \<open>unset\<close> for a key whose node the lookup finds.\<close>

definition unset_found :: "nat \<Rightarrow> key \<Rightarrow> nat \<Rightarrow> state \<Rightarrow> (error + nat) \<times> state" where
  "unset_found this k node s =
     (let (m, s1) = forkMap this s
      in case addImmutableLinkedOrderedMapOrphanNode m k s1 of
           (Some e, s2) \<Rightarrow> (Inl e, s2)
         | (None, s2) \<Rightarrow>
             (case unset_repair this m (findMapNodeByDirection s2 this node Previous)
                     (findMapNodeByDirection s2 this node Next) s2 of
                (Some e, s3) \<Rightarrow> (Inl e, s3)
              | (None, s3) \<Rightarrow>
                  (Inr m, mapChange m (ChangeUnset k (element_value (nodeStore s1 node))) s3)))"

text \<open>
  \<open>unset\<close> of a key (\<open>unsetKey\<close> in the later copy, whose \<open>unset\<close> calls it for a key
  and, for an item or an array of items, for each of their keys in turn). A value that
  is no node, handed over by the lookup, is truthy: the map is forked, and reading
  \<open>element.value\<close> of the value throws.
\<close>

definition ImmutableLinkedOrderedMap_unset :: "nat \<Rightarrow> key \<Rightarrow> state \<Rightarrow> (error + nat) \<times> state" where
  "ImmutableLinkedOrderedMap_unset this k s =
     (case lookup s this k of
        Inl e \<Rightarrow> (Inl e, s)
      | Inr NoNode \<Rightarrow> (Inr this, s)
      | Inr NotANode \<Rightarrow> (Inl TypeError, snd (forkMap this s))
      | Inr (IsNode node) \<Rightarrow> unset_found this k node s)"

text \<open>
  \<open>empty\<close> builds its result with the constructor of the class, which calls the
  factory: a map of the same mode over a heap map of its own.
\<close>

definition ImmutableLinkedOrderedMap_empty :: "nat \<Rightarrow> state \<Rightarrow> (error + nat) \<times> state" where
  "ImmutableLinkedOrderedMap_empty this s =
     (if mlength (mapStore s this) \<le> 0 then (Inr this, s)
      else
        (case newImmutableLinkedOrderedMap [] (keyPropName (mapStore s this))
                (Some (NumberValue (ImmutableLinkedOrderedMapMode (mode (mapStore s this)))))
                False s of
           (Inl e, s1) \<Rightarrow> (Inl e, s1)
         | (Inr m, s1) \<Rightarrow>
             (Inr m, mapChange m ChangeEmpty
                       (updMap m (\<lambda>x. x\<lparr>mlength := 0, depth := depth (mapStore s1 this) + 1,
                                           ancestorMap := Some this\<rparr>) s1))))"

section \<open>Reads\<close>

text \<open>\<open>get\<close> reads \<open>element.value\<close> of what the lookup hands it, when that is truthy.\<close>

definition ImmutableLinkedOrderedMap_get :: "state \<Rightarrow> nat \<Rightarrow> key \<Rightarrow> error + jsval" where
  "ImmutableLinkedOrderedMap_get s this k =
     (case lookup s this k of
        Inl e \<Rightarrow> Inl e
      | Inr NoNode \<Rightarrow> Inr Undefined
      | Inr NotANode \<Rightarrow> Inl TypeError
      | Inr (IsNode node) \<Rightarrow> Inr (element_value (nodeStore s node)))"

definition ImmutableLinkedOrderedMap_first :: "state \<Rightarrow> nat \<Rightarrow> (key \<times> jsval) option" where
  "ImmutableLinkedOrderedMap_first s this =
     (case head (mapStore s this) of
        Some h \<Rightarrow> Some (element_key (nodeStore s h), element_value (nodeStore s h))
      | None \<Rightarrow> None)"

definition ImmutableLinkedOrderedMap_last :: "state \<Rightarrow> nat \<Rightarrow> (key \<times> jsval) option" where
  "ImmutableLinkedOrderedMap_last s this =
     (case tail (mapStore s this) of
        Some t \<Rightarrow> Some (element_key (nodeStore s t), element_value (nodeStore s t))
      | None \<Rightarrow> None)"

definition ImmutableLinkedOrderedMap_isEmpty :: "state \<Rightarrow> nat \<Rightarrow> bool" where
  "ImmutableLinkedOrderedMap_isEmpty s this = (mlength (mapStore s this) \<le> 0)"

text \<open>
  The callback of \<open>forEach\<close> is a step on an accumulator (the variables its closure
  writes) that says how it ended: it went on, it returned \<open>false\<close>, or it called
  \<open>break()\<close> on the map and went on. It gets the value, the key and, in the later copy,
  the index \<open>i\<close> that \<open>forEach\<close> counts (\<open>None\<close> is the missing third argument of the
  earlier copy).
\<close>

datatype callback_result = Proceed | ReturnedFalse | CalledBreak

definition callback_index :: "state \<Rightarrow> int \<Rightarrow> int option" where
  "callback_index s i = (case engine s of Earlier \<Rightarrow> None | Later \<Rightarrow> Some i)"

text \<open>
  The \<open>while (current)\<close> loop of \<open>forEach\<close>. Nothing in the loop bounds the walk, so the
  model counts the turns it may take: \<open>None\<close> is a walk that has not ended within them.
  \<open>i\<close> is the index and \<open>updateI\<close> what a turn adds to it.
\<close>

fun forEach_loop ::
  "nat \<Rightarrow> nat \<Rightarrow> direction \<Rightarrow> ('a \<Rightarrow> jsval \<Rightarrow> key \<Rightarrow> int option \<Rightarrow> 'a \<times> callback_result)
     \<Rightarrow> int \<Rightarrow> int \<Rightarrow> nat option \<Rightarrow> 'a \<Rightarrow> state \<Rightarrow> ('a \<times> state) option" where
  "forEach_loop fuel this dir fn i updateI None acc s = Some (acc, s)"
| "forEach_loop 0 this dir fn i updateI (Some current) acc s = None"
| "forEach_loop (Suc fuel) this dir fn i updateI (Some current) acc s =
     (if shouldNextForEachBreak (mapStore s this) then Some (acc, s)
      else
        (case fn acc (element_value (nodeStore s current)) (element_key (nodeStore s current))
                (callback_index s i) of
           (acc', ReturnedFalse) \<Rightarrow> Some (acc', s)
         | (acc', Proceed) \<Rightarrow>
             forEach_loop fuel this dir fn (i + updateI) updateI
               (findMapNodeByDirection s this current dir) acc' s
         | (acc', CalledBreak) \<Rightarrow>
             forEach_loop fuel this dir fn (i + updateI) updateI
               (findMapNodeByDirection s this current dir) acc'
               (updMap this (\<lambda>x. x\<lparr>shouldNextForEachBreak := True\<rparr>) s)))"

definition ImmutableLinkedOrderedMap_forEach ::
  "nat \<Rightarrow> nat \<Rightarrow> ('a \<Rightarrow> jsval \<Rightarrow> key \<Rightarrow> int option \<Rightarrow> 'a \<times> callback_result) \<Rightarrow> bool \<Rightarrow> 'a \<Rightarrow> state
     \<Rightarrow> ('a \<times> state) option" where
  "ImmutableLinkedOrderedMap_forEach fuel this fn reversed acc s =
     (let s1 = updMap this (\<lambda>x. x\<lparr>shouldNextForEachBreak := False\<rparr>) s
      in if reversed
         then forEach_loop fuel this Previous fn (mlength (mapStore s1 this) - 1) (- 1)
                (tail (mapStore s1 this)) acc s1
         else forEach_loop fuel this Next fn 0 1 (head (mapStore s1 this)) acc s1)"

definition ImmutableLinkedOrderedMap_break :: "nat \<Rightarrow> state \<Rightarrow> state" where
  "ImmutableLinkedOrderedMap_break this s =
     updMap this (\<lambda>x. x\<lparr>shouldNextForEachBreak := True\<rparr>) s"

text \<open>
  A JavaScript array with holes: \<open>new Array(n)\<close> has \<open>n\<close> empty slots, and a write at or
  past the end extends the array.
\<close>

definition new_Array :: "int \<Rightarrow> 'a option list" where
  "new_Array n = replicate (nat n) None"

definition array_put :: "nat \<Rightarrow> 'a \<Rightarrow> 'a option list \<Rightarrow> 'a option list" where
  "array_put i v xs =
     (if i < length xs then xs[i := Some v]
      else xs @ replicate (i - length xs) None @ [Some v])"

text \<open>
  \<open>values\<close>, \<open>keys\<close>, \<open>keysValues\<close> and \<open>map\<close> share their shape: an array of
  \<open>this.length\<close> slots (a RangeError for a negative length) that the callback fills
  from index 0, counting the slots itself. \<open>f\<close> gets the value, the key, the count and
  the index that \<open>forEach\<close> hands over.
\<close>

definition collect ::
  "nat \<Rightarrow> nat \<Rightarrow> (jsval \<Rightarrow> key \<Rightarrow> nat \<Rightarrow> int option \<Rightarrow> 'a) \<Rightarrow> bool \<Rightarrow> state
     \<Rightarrow> ((error + 'a option list) \<times> state) option" where
  "collect fuel this f reversed s =
     (if mlength (mapStore s this) < 0 then Some (Inl RangeError, s)
      else map_option (\<lambda>((array, i), s1). (Inr array, s1))
             (ImmutableLinkedOrderedMap_forEach fuel this
                (\<lambda>(array, i) v k index. ((array_put i (f v k i index) array, i + 1), Proceed))
                reversed (new_Array (mlength (mapStore s this)), 0) s))"

text \<open>
  The later copy hands \<open>reversed\<close> on to \<open>forEach\<close>; \<open>values\<close>, \<open>keys\<close> and \<open>keysValues\<close>
  of the earlier copy have no such parameter and walk from the head.
\<close>

definition reversed_read :: "state \<Rightarrow> bool \<Rightarrow> bool" where
  "reversed_read s reversed = (case engine s of Earlier \<Rightarrow> False | Later \<Rightarrow> reversed)"

definition ImmutableLinkedOrderedMap_values ::
  "nat \<Rightarrow> nat \<Rightarrow> bool \<Rightarrow> state \<Rightarrow> ((error + jsval option list) \<times> state) option" where
  "ImmutableLinkedOrderedMap_values fuel this reversed s =
     collect fuel this (\<lambda>v k i index. v) (reversed_read s reversed) s"

definition ImmutableLinkedOrderedMap_keys ::
  "nat \<Rightarrow> nat \<Rightarrow> bool \<Rightarrow> state \<Rightarrow> ((error + key option list) \<times> state) option" where
  "ImmutableLinkedOrderedMap_keys fuel this reversed s =
     collect fuel this (\<lambda>v k i index. k) (reversed_read s reversed) s"

definition ImmutableLinkedOrderedMap_keysValues ::
  "nat \<Rightarrow> nat \<Rightarrow> bool \<Rightarrow> state \<Rightarrow> ((error + (key \<times> jsval) option list) \<times> state) option" where
  "ImmutableLinkedOrderedMap_keysValues fuel this reversed s =
     collect fuel this (\<lambda>v k i index. (k, v)) (reversed_read s reversed) s"

text \<open>
  \<open>map\<close> calls \<open>fn(value, key, i)\<close> with its own count in the earlier copy and
  \<open>fn(value, key, index)\<close> with the index of \<open>forEach\<close> in the later one.
\<close>

definition ImmutableLinkedOrderedMap_map ::
  "nat \<Rightarrow> nat \<Rightarrow> (jsval \<Rightarrow> key \<Rightarrow> int \<Rightarrow> 'a) \<Rightarrow> bool \<Rightarrow> state
     \<Rightarrow> ((error + 'a option list) \<times> state) option" where
  "ImmutableLinkedOrderedMap_map fuel this fn reversed s =
     collect fuel this
       (\<lambda>v k i index. fn v k (case index of None \<Rightarrow> int i | Some j \<Rightarrow> j)) reversed s"

section \<open>The gates of single and lightweight mode\<close>

text \<open>
  Both subclasses wrap a mutation the same way: refuse when the flag is set, call the
  base method, set the flag when the result is another object than the receiver.
\<close>

definition arm :: "nat \<Rightarrow> (error + nat) \<times> state \<Rightarrow> (error + nat) \<times> state" where
  "arm this rs =
     (case rs of
        (Inr m, s) \<Rightarrow>
          (Inr m, if this \<noteq> m
                  then updMap this (\<lambda>x. x\<lparr>mutationOperationOccurred := True\<rparr>) s
                  else s)
      | (Inl e, s) \<Rightarrow> (Inl e, s))"

definition SingleMode_set :: "nat \<Rightarrow> item list \<Rightarrow> bool \<Rightarrow> state \<Rightarrow> (error + nat) \<times> state" where
  "SingleMode_set this items prependMissing s =
     (if mutationOperationOccurred (mapStore s this)
      then (Inl (SingleModeMutationAlreadyOccurred ''set''), s)
      else arm this (ImmutableLinkedOrderedMap_set this items prependMissing s))"

definition SingleMode_replace ::
  "nat \<Rightarrow> key \<Rightarrow> item \<Rightarrow> bool \<Rightarrow> bool \<Rightarrow> state \<Rightarrow> (error + nat) \<times> state" where
  "SingleMode_replace this oldKey it addMissing prependMissing s =
     (if mutationOperationOccurred (mapStore s this)
      then (Inl (SingleModeMutationAlreadyOccurred ''replace''), s)
      else arm this (ImmutableLinkedOrderedMap_replace this oldKey it addMissing prependMissing s))"

definition SingleMode_unset :: "nat \<Rightarrow> key \<Rightarrow> state \<Rightarrow> (error + nat) \<times> state" where
  "SingleMode_unset this k s =
     (if mutationOperationOccurred (mapStore s this)
      then (Inl (SingleModeMutationAlreadyOccurred ''unset''), s)
      else arm this (ImmutableLinkedOrderedMap_unset this k s))"

definition SingleMode_empty :: "nat \<Rightarrow> state \<Rightarrow> (error + nat) \<times> state" where
  "SingleMode_empty this s =
     (if mutationOperationOccurred (mapStore s this)
      then (Inl (SingleModeMutationAlreadyOccurred ''empty''), s)
      else arm this (ImmutableLinkedOrderedMap_empty this s))"

definition LightweightMode_set :: "nat \<Rightarrow> item list \<Rightarrow> bool \<Rightarrow> state \<Rightarrow> (error + nat) \<times> state" where
  "LightweightMode_set this items prependMissing s =
     (if mutationOperationOccurred (mapStore s this)
      then (Inl (LightweightModePostMutationUse ''set''), s)
      else arm this (ImmutableLinkedOrderedMap_set this items prependMissing s))"

definition LightweightMode_replace ::
  "nat \<Rightarrow> key \<Rightarrow> item \<Rightarrow> bool \<Rightarrow> bool \<Rightarrow> state \<Rightarrow> (error + nat) \<times> state" where
  "LightweightMode_replace this oldKey it addMissing prependMissing s =
     (if mutationOperationOccurred (mapStore s this)
      then (Inl (LightweightModePostMutationUse ''replace''), s)
      else arm this (ImmutableLinkedOrderedMap_replace this oldKey it addMissing prependMissing s))"

definition LightweightMode_unset :: "nat \<Rightarrow> key \<Rightarrow> state \<Rightarrow> (error + nat) \<times> state" where
  "LightweightMode_unset this k s =
     (if mutationOperationOccurred (mapStore s this)
      then (Inl (LightweightModePostMutationUse ''unset''), s)
      else arm this (ImmutableLinkedOrderedMap_unset this k s))"

definition LightweightMode_empty :: "nat \<Rightarrow> state \<Rightarrow> (error + nat) \<times> state" where
  "LightweightMode_empty this s =
     (if mutationOperationOccurred (mapStore s this)
      then (Inl (LightweightModePostMutationUse ''empty''), s)
      else arm this (ImmutableLinkedOrderedMap_empty this s))"

text \<open>The lightweight class also wraps every read: refuse when the flag is set.\<close>

definition lightweight_gate :: "string \<Rightarrow> state \<Rightarrow> nat \<Rightarrow> 'a \<Rightarrow> error + 'a" where
  "lightweight_gate operation s this r =
     (if mutationOperationOccurred (mapStore s this)
      then Inl (LightweightModePostMutationUse operation)
      else Inr r)"

definition LightweightMode_get :: "state \<Rightarrow> nat \<Rightarrow> key \<Rightarrow> error + jsval" where
  "LightweightMode_get s this k =
     (if mutationOperationOccurred (mapStore s this)
      then Inl (LightweightModePostMutationUse ''get'')
      else ImmutableLinkedOrderedMap_get s this k)"

definition LightweightMode_first :: "state \<Rightarrow> nat \<Rightarrow> error + (key \<times> jsval) option" where
  "LightweightMode_first s this =
     lightweight_gate ''first'' s this (ImmutableLinkedOrderedMap_first s this)"

definition LightweightMode_last :: "state \<Rightarrow> nat \<Rightarrow> error + (key \<times> jsval) option" where
  "LightweightMode_last s this =
     lightweight_gate ''last'' s this (ImmutableLinkedOrderedMap_last s this)"

definition LightweightMode_isEmpty :: "state \<Rightarrow> nat \<Rightarrow> error + bool" where
  "LightweightMode_isEmpty s this =
     lightweight_gate ''isEmpty'' s this (ImmutableLinkedOrderedMap_isEmpty s this)"

definition LightweightMode_forEach ::
  "nat \<Rightarrow> nat \<Rightarrow> ('a \<Rightarrow> jsval \<Rightarrow> key \<Rightarrow> int option \<Rightarrow> 'a \<times> callback_result) \<Rightarrow> bool \<Rightarrow> 'a \<Rightarrow> state
     \<Rightarrow> ((error + 'a) \<times> state) option" where
  "LightweightMode_forEach fuel this fn reversed acc s =
     (if mutationOperationOccurred (mapStore s this)
      then Some (Inl (LightweightModePostMutationUse ''forEach''), s)
      else map_option (\<lambda>(a, s'). (Inr a, s'))
             (ImmutableLinkedOrderedMap_forEach fuel this fn reversed acc s))"

definition LightweightMode_break :: "nat \<Rightarrow> state \<Rightarrow> (error + unit) \<times> state" where
  "LightweightMode_break this s =
     (if mutationOperationOccurred (mapStore s this)
      then (Inl (LightweightModePostMutationUse ''break''), s)
      else (Inr (), ImmutableLinkedOrderedMap_break this s))"

text \<open>
  Inside the base \<open>values\<close>, \<open>keys\<close>, \<open>keysValues\<close> and \<open>map\<close> the call \<open>this.forEach\<close>
  is the lightweight override; it is reached only with the flag clear, where it is the
  base \<open>forEach\<close>.
\<close>

definition LightweightMode_values ::
  "nat \<Rightarrow> nat \<Rightarrow> bool \<Rightarrow> state \<Rightarrow> ((error + jsval option list) \<times> state) option" where
  "LightweightMode_values fuel this reversed s =
     (if mutationOperationOccurred (mapStore s this)
      then Some (Inl (LightweightModePostMutationUse ''values''), s)
      else ImmutableLinkedOrderedMap_values fuel this reversed s)"

definition LightweightMode_keys ::
  "nat \<Rightarrow> nat \<Rightarrow> bool \<Rightarrow> state \<Rightarrow> ((error + key option list) \<times> state) option" where
  "LightweightMode_keys fuel this reversed s =
     (if mutationOperationOccurred (mapStore s this)
      then Some (Inl (LightweightModePostMutationUse ''keys''), s)
      else ImmutableLinkedOrderedMap_keys fuel this reversed s)"

definition LightweightMode_keysValues ::
  "nat \<Rightarrow> nat \<Rightarrow> bool \<Rightarrow> state \<Rightarrow> ((error + (key \<times> jsval) option list) \<times> state) option" where
  "LightweightMode_keysValues fuel this reversed s =
     (if mutationOperationOccurred (mapStore s this)
      then Some (Inl (LightweightModePostMutationUse ''keysValues''), s)
      else ImmutableLinkedOrderedMap_keysValues fuel this reversed s)"

definition LightweightMode_map ::
  "nat \<Rightarrow> nat \<Rightarrow> (jsval \<Rightarrow> key \<Rightarrow> int \<Rightarrow> 'a) \<Rightarrow> bool \<Rightarrow> state
     \<Rightarrow> ((error + 'a option list) \<times> state) option" where
  "LightweightMode_map fuel this fn reversed s =
     (if mutationOperationOccurred (mapStore s this)
      then Some (Inl (LightweightModePostMutationUse ''map''), s)
      else ImmutableLinkedOrderedMap_map fuel this fn reversed s)"

section \<open>Method calls\<close>

text \<open>
  A call \<open>m.set(...)\<close> runs the method of the class of \<open>m\<close>, and the class of a map is
  the class of its mode: the single and the lightweight class override the methods
  above, the multiway class overrides none.
\<close>

definition call_set :: "nat \<Rightarrow> item list \<Rightarrow> bool \<Rightarrow> state \<Rightarrow> (error + nat) \<times> state" where
  "call_set this items prependMissing s =
     (case mode (mapStore s this) of
        SINGLE \<Rightarrow> SingleMode_set this items prependMissing s
      | MULTIWAY \<Rightarrow> ImmutableLinkedOrderedMap_set this items prependMissing s
      | LIGHTWEIGHT \<Rightarrow> LightweightMode_set this items prependMissing s)"

definition call_replace ::
  "nat \<Rightarrow> key \<Rightarrow> item \<Rightarrow> bool \<Rightarrow> bool \<Rightarrow> state \<Rightarrow> (error + nat) \<times> state" where
  "call_replace this oldKey it addMissing prependMissing s =
     (case mode (mapStore s this) of
        SINGLE \<Rightarrow> SingleMode_replace this oldKey it addMissing prependMissing s
      | MULTIWAY \<Rightarrow> ImmutableLinkedOrderedMap_replace this oldKey it addMissing prependMissing s
      | LIGHTWEIGHT \<Rightarrow> LightweightMode_replace this oldKey it addMissing prependMissing s)"

definition call_unset :: "nat \<Rightarrow> key \<Rightarrow> state \<Rightarrow> (error + nat) \<times> state" where
  "call_unset this k s =
     (case mode (mapStore s this) of
        SINGLE \<Rightarrow> SingleMode_unset this k s
      | MULTIWAY \<Rightarrow> ImmutableLinkedOrderedMap_unset this k s
      | LIGHTWEIGHT \<Rightarrow> LightweightMode_unset this k s)"

definition call_empty :: "nat \<Rightarrow> state \<Rightarrow> (error + nat) \<times> state" where
  "call_empty this s =
     (case mode (mapStore s this) of
        SINGLE \<Rightarrow> SingleMode_empty this s
      | MULTIWAY \<Rightarrow> ImmutableLinkedOrderedMap_empty this s
      | LIGHTWEIGHT \<Rightarrow> LightweightMode_empty this s)"

definition call_get :: "state \<Rightarrow> nat \<Rightarrow> key \<Rightarrow> error + jsval" where
  "call_get s this k =
     (case mode (mapStore s this) of
        LIGHTWEIGHT \<Rightarrow> LightweightMode_get s this k
      | _ \<Rightarrow> ImmutableLinkedOrderedMap_get s this k)"

definition call_first :: "state \<Rightarrow> nat \<Rightarrow> error + (key \<times> jsval) option" where
  "call_first s this =
     (case mode (mapStore s this) of
        LIGHTWEIGHT \<Rightarrow> LightweightMode_first s this
      | _ \<Rightarrow> Inr (ImmutableLinkedOrderedMap_first s this))"

definition call_last :: "state \<Rightarrow> nat \<Rightarrow> error + (key \<times> jsval) option" where
  "call_last s this =
     (case mode (mapStore s this) of
        LIGHTWEIGHT \<Rightarrow> LightweightMode_last s this
      | _ \<Rightarrow> Inr (ImmutableLinkedOrderedMap_last s this))"

definition call_isEmpty :: "state \<Rightarrow> nat \<Rightarrow> error + bool" where
  "call_isEmpty s this =
     (case mode (mapStore s this) of
        LIGHTWEIGHT \<Rightarrow> LightweightMode_isEmpty s this
      | _ \<Rightarrow> Inr (ImmutableLinkedOrderedMap_isEmpty s this))"

definition call_forEach ::
  "nat \<Rightarrow> nat \<Rightarrow> ('a \<Rightarrow> jsval \<Rightarrow> key \<Rightarrow> int option \<Rightarrow> 'a \<times> callback_result) \<Rightarrow> bool \<Rightarrow> 'a \<Rightarrow> state
     \<Rightarrow> ((error + 'a) \<times> state) option" where
  "call_forEach fuel this fn reversed acc s =
     (case mode (mapStore s this) of
        LIGHTWEIGHT \<Rightarrow> LightweightMode_forEach fuel this fn reversed acc s
      | _ \<Rightarrow> map_option (\<lambda>(a, s'). (Inr a, s'))
               (ImmutableLinkedOrderedMap_forEach fuel this fn reversed acc s))"

definition call_values ::
  "nat \<Rightarrow> nat \<Rightarrow> bool \<Rightarrow> state \<Rightarrow> ((error + jsval option list) \<times> state) option" where
  "call_values fuel this reversed s =
     (case mode (mapStore s this) of
        LIGHTWEIGHT \<Rightarrow> LightweightMode_values fuel this reversed s
      | _ \<Rightarrow> ImmutableLinkedOrderedMap_values fuel this reversed s)"

definition call_keys ::
  "nat \<Rightarrow> nat \<Rightarrow> bool \<Rightarrow> state \<Rightarrow> ((error + key option list) \<times> state) option" where
  "call_keys fuel this reversed s =
     (case mode (mapStore s this) of
        LIGHTWEIGHT \<Rightarrow> LightweightMode_keys fuel this reversed s
      | _ \<Rightarrow> ImmutableLinkedOrderedMap_keys fuel this reversed s)"

definition call_keysValues ::
  "nat \<Rightarrow> nat \<Rightarrow> bool \<Rightarrow> state \<Rightarrow> ((error + (key \<times> jsval) option list) \<times> state) option" where
  "call_keysValues fuel this reversed s =
     (case mode (mapStore s this) of
        LIGHTWEIGHT \<Rightarrow> LightweightMode_keysValues fuel this reversed s
      | _ \<Rightarrow> ImmutableLinkedOrderedMap_keysValues fuel this reversed s)"

definition call_map ::
  "nat \<Rightarrow> nat \<Rightarrow> (jsval \<Rightarrow> key \<Rightarrow> int \<Rightarrow> 'a) \<Rightarrow> bool \<Rightarrow> state
     \<Rightarrow> ((error + 'a option list) \<times> state) option" where
  "call_map fuel this fn reversed s =
     (case mode (mapStore s this) of
        LIGHTWEIGHT \<Rightarrow> LightweightMode_map fuel this fn reversed s
      | _ \<Rightarrow> ImmutableLinkedOrderedMap_map fuel this fn reversed s)"

definition call_break :: "nat \<Rightarrow> state \<Rightarrow> (error + unit) \<times> state" where
  "call_break this s =
     (case mode (mapStore s this) of
        LIGHTWEIGHT \<Rightarrow> LightweightMode_break this s
      | _ \<Rightarrow> (Inr (), ImmutableLinkedOrderedMap_break this s))"

section \<open>Programs over the interface\<close>

text \<open>The four mutation methods with their arguments, and the name each gives its gate.\<close>

datatype mutation =
    MSet "item list" bool
  | MReplace key item bool bool
  | MUnset key
  | MEmpty

fun call_mutation :: "mutation \<Rightarrow> nat \<Rightarrow> state \<Rightarrow> (error + nat) \<times> state" where
  "call_mutation (MSet items prependMissing) this s = call_set this items prependMissing s"
| "call_mutation (MReplace oldKey it addMissing prependMissing) this s =
     call_replace this oldKey it addMissing prependMissing s"
| "call_mutation (MUnset k) this s = call_unset this k s"
| "call_mutation MEmpty this s = call_empty this s"

fun operation_name :: "mutation \<Rightarrow> string" where
  "operation_name (MSet items prependMissing) = ''set''"
| "operation_name (MReplace oldKey it addMissing prependMissing) = ''replace''"
| "operation_name (MUnset k) = ''unset''"
| "operation_name MEmpty = ''empty''"

text \<open>
  What a client can do to the store: every call of the interface that writes to it. A
  call that does not return within its turns has no store after it. Nor has a
  construction whose \<open>mode\<close> names an inherited property of the dispatch table: the
  TypeError of \<open>newMapFromMode\<close> leaves the constructor's flag \<open>creatingNew\<close> set, with
  which the next construction returns an object that no factory has filled, and the
  model does not follow a program there.
\<close>

datatype command =
    New "item list" string "option_value option" bool
  | Mutate nat mutation
  | ForEach nat nat "nat \<Rightarrow> jsval \<Rightarrow> key \<Rightarrow> int option \<Rightarrow> nat \<times> callback_result" bool nat
  | Break nat
  | Values nat nat bool
  | Keys nat nat bool
  | KeysValues nat nat bool
  | MapCall nat nat "jsval \<Rightarrow> key \<Rightarrow> int \<Rightarrow> nat" bool

fun exec :: "command \<Rightarrow> state \<Rightarrow> state option" where
  "exec (New initialItems kpn givenMode lazy) s =
     (case newMapFromMode (resolveMode (engine s) givenMode) of
        Inl e \<Rightarrow> None
      | Inr md \<Rightarrow> Some (snd (newImmutableLinkedOrderedMap initialItems kpn givenMode lazy s)))"
| "exec (Mutate this mu) s = Some (snd (call_mutation mu this s))"
| "exec (ForEach fuel this fn reversed acc) s =
     map_option snd (call_forEach fuel this fn reversed acc s)"
| "exec (Break this) s = Some (snd (call_break this s))"
| "exec (Values fuel this reversed) s = map_option snd (call_values fuel this reversed s)"
| "exec (Keys fuel this reversed) s = map_option snd (call_keys fuel this reversed s)"
| "exec (KeysValues fuel this reversed) s =
     map_option snd (call_keysValues fuel this reversed s)"
| "exec (MapCall fuel this fn reversed) s = map_option snd (call_map fuel this fn reversed s)"

fun run :: "command list \<Rightarrow> state \<Rightarrow> state option" where
  "run [] s = Some s"
| "run (c # cs) s = (case exec c s of None \<Rightarrow> None | Some s' \<Rightarrow> run cs s')"

section \<open>What the engine leaves alone\<close>

text \<open>
  The mode and the gate flag of a map. \<open>same_gates s s'\<close>: every map of \<open>s\<close> is a map of
  \<open>s'\<close> with the mode and the flag it has in \<open>s\<close>; \<open>gates_grow\<close> lets a flag go from
  clear to set.
\<close>

definition gate_fields :: "imap \<Rightarrow> mode \<times> bool" where
  "gate_fields x = (mode x, mutationOperationOccurred x)"

definition same_gates :: "state \<Rightarrow> state \<Rightarrow> bool" where
  "same_gates s s' =
     (mapCount s \<le> mapCount s' \<and>
      (\<forall>x. x < mapCount s \<longrightarrow> gate_fields (mapStore s' x) = gate_fields (mapStore s x)))"

definition gates_grow :: "state \<Rightarrow> state \<Rightarrow> bool" where
  "gates_grow s s' =
     (mapCount s \<le> mapCount s' \<and>
      (\<forall>x. x < mapCount s \<longrightarrow>
         mode (mapStore s' x) = mode (mapStore s x) \<and>
         (mutationOperationOccurred (mapStore s x) \<longrightarrow>
            mutationOperationOccurred (mapStore s' x))))"

text \<open>The base-class method that a mutation names.\<close>

definition base_mutation :: "mutation \<Rightarrow> nat \<Rightarrow> state \<Rightarrow> (error + nat) \<times> state" where
  "base_mutation mu this s =
     (case mu of
        MSet items pm \<Rightarrow> ImmutableLinkedOrderedMap_set this items pm s
      | MReplace oldKey it am pm \<Rightarrow> ImmutableLinkedOrderedMap_replace this oldKey it am pm s
      | MUnset k \<Rightarrow> ImmutableLinkedOrderedMap_unset this k s
      | MEmpty \<Rightarrow> ImmutableLinkedOrderedMap_empty this s)"

text \<open>
  \<open>fresh_map s this m s'\<close>: \<open>m\<close> is a map made after \<open>s\<close>, with the mode of \<open>this\<close> and a
  clear flag. \<open>set_inv\<close> is what the loop of \<open>set\<close> keeps: the maps of \<open>s\<close> keep their
  gates, and the forked map, once there is one, is fresh.
\<close>

definition fresh_map :: "state \<Rightarrow> nat \<Rightarrow> nat \<Rightarrow> state \<Rightarrow> bool" where
  "fresh_map s this m s' =
     (m < mapCount s' \<and> mapCount s \<le> m \<and>
      gate_fields (mapStore s' m) = (mode (mapStore s this), False))"

definition set_inv :: "state \<Rightarrow> nat \<Rightarrow> set_locals \<times> state \<Rightarrow> bool" where
  "set_inv s this ls =
     (same_gates s (snd ls) \<and>
      (case l_map (fst ls) of None \<Rightarrow> True | Some m \<Rightarrow> fresh_map s this m (snd ls)))"

section \<open>Heaps of the shape their mode writes\<close>

text \<open>
  A cell of the shared heap object holds what \<open>updateHeapMap\<close> of the mode wrote under
  the key: a node in lightweight mode, a map of depths in single mode, a map of versions
  in multiway mode. \<open>heap_fits\<close> says that every own cell of the heap of a map has the
  shape of the map's mode, which is so of the heap of every map that the factory makes.
\<close>

definition cell_of_mode :: "mode \<Rightarrow> hentry \<Rightarrow> bool" where
  "cell_of_mode md c =
     (case c of
        HNode n \<Rightarrow> md = LIGHTWEIGHT
      | HDepth dm \<Rightarrow> md = SINGLE
      | HVersion dm \<Rightarrow> md = MULTIWAY)"

definition heap_fits :: "state \<Rightarrow> nat \<Rightarrow> bool" where
  "heap_fits s m =
     (\<forall>k c. heapStore s (heapMap (mapStore s m)) k = Some c \<longrightarrow> cell_of_mode (mode (mapStore s m)) c)"

section \<open>Example stores\<close>

text \<open>
  A single-mode and a lightweight-mode map of the one entry \<open>{1: 1}\<close>, each at address 0
  of a store of its own, and what the factory returns for that entry with no \<open>mode\<close>
  given.
\<close>

definition single_one :: "engine \<Rightarrow> state" where
  "single_one e = snd (newImmutableLinkedOrderedMap [ItemPair ''1'' (Value 1)]
                         DEFAULT_KEY_PROP_NAME (Some (NumberValue 1)) False (init_state e))"

definition light_one :: "engine \<Rightarrow> state" where
  "light_one e = snd (newImmutableLinkedOrderedMap [ItemPair ''1'' (Value 1)]
                        DEFAULT_KEY_PROP_NAME (Some (NumberValue 3)) False (init_state e))"

definition one_item :: "engine \<Rightarrow> state" where
  "one_item e = snd (newImmutableLinkedOrderedMap [ItemPair ''1'' (Value 1)]
                       DEFAULT_KEY_PROP_NAME None False (init_state e))"

text \<open>
  Three calls of \<open>replace\<close> in a row, each on the map that the call before returned
  (the maps at the addresses 0, 1 and 2), and a \<open>set\<close> on the map that the third call
  returns: \<open>m1 = m0.replace("1", {2: 2})\<close>, \<open>m2 = m1.replace("2", {1: 1})\<close>,
  \<open>m3 = m2.replace("2", {1: 1})\<close>, \<open>m3.set({x: 9})\<close>.
\<close>

definition replaced_once :: "state \<Rightarrow> state" where
  "replaced_once s = snd (call_replace 0 ''1'' (ItemPair ''2'' (Value 2)) False False s)"

definition replaced_twice :: "state \<Rightarrow> state" where
  "replaced_twice s =
     snd (call_replace 1 ''2'' (ItemPair ''1'' (Value 1)) False False (replaced_once s))"

definition replaced_thrice :: "state \<Rightarrow> state" where
  "replaced_thrice s =
     snd (call_replace 2 ''2'' (ItemPair ''1'' (Value 1)) False False (replaced_twice s))"

definition replaced_and_set :: "state \<Rightarrow> state" where
  "replaced_and_set s =
     snd (call_set 3 [ItemPair ''x'' (Value 9)] False (replaced_thrice s))"

text \<open>The store after \<open>set({2: 2})\<close> on the map at address 0.\<close>

definition set_two :: "state \<Rightarrow> state" where
  "set_two s = snd (call_set 0 [ItemPair ''2'' (Value 2)] False s)"

text \<open>The factory called on two items that share their key, with no \<open>mode\<close> given.\<close>

definition dup_items :: "engine \<Rightarrow> (error + nat) \<times> state" where
  "dup_items e = newImmutableLinkedOrderedMap
                   [ItemPair ''1'' (Value 1), ItemPair ''1'' (Value 2)]
                   DEFAULT_KEY_PROP_NAME None False (init_state e)"

text \<open>
  Ten children of one empty multiway root (at the addresses 1 to 10): the first sets
  the key \<open>a\<close>, the tenth the key \<open>b\<close>, the others the key \<open>c\<close>.
\<close>

definition ten_children :: "command list" where
  "ten_children =
     [Mutate 0 (MSet [ItemPair ''a'' (Value 1)] False),
      Mutate 0 (MSet [ItemPair ''c'' (Value 3)] False),
      Mutate 0 (MSet [ItemPair ''c'' (Value 3)] False),
      Mutate 0 (MSet [ItemPair ''c'' (Value 3)] False),
      Mutate 0 (MSet [ItemPair ''c'' (Value 3)] False),
      Mutate 0 (MSet [ItemPair ''c'' (Value 3)] False),
      Mutate 0 (MSet [ItemPair ''c'' (Value 3)] False),
      Mutate 0 (MSet [ItemPair ''c'' (Value 3)] False),
      Mutate 0 (MSet [ItemPair ''c'' (Value 3)] False),
      Mutate 0 (MSet [ItemPair ''b'' (Value 2)] False)]"

definition ten_children_state :: "engine \<Rightarrow> state" where
  "ten_children_state e =
     the (run ten_children
            (snd (newImmutableLinkedOrderedMap [] DEFAULT_KEY_PROP_NAME
                    (Some (NumberValue 2)) False (init_state e))))"

text \<open>
  An empty lightweight-mode map after \<open>set({a: 1})\<close> on it, and what the factory returns
  in lightweight mode for the one item \<open>{constructor: 5}\<close>.
\<close>

definition locked_empty :: "engine \<Rightarrow> state" where
  "locked_empty e =
     snd (call_set 0 [ItemPair ''a'' (Value 1)] False
            (snd (newImmutableLinkedOrderedMap [] DEFAULT_KEY_PROP_NAME
                    (Some (NumberValue 3)) False (init_state e))))"

definition inherited_key_item :: "engine \<Rightarrow> (error + nat) \<times> state" where
  "inherited_key_item e =
     newImmutableLinkedOrderedMap [ItemPair ''constructor'' (Value 5)] DEFAULT_KEY_PROP_NAME
       (Some (NumberValue 3)) False (init_state e)"

text \<open>The store after \<open>unset("1")\<close> on the map at address 0.\<close>

definition unset_one :: "state \<Rightarrow> state" where
  "unset_one s = snd (call_unset 0 ''1'' s)"

section \<open>Frame lemmas\<close>

lemma updNode_simps [simp]:
  "engine (updNode r f s) = engine s"
  "nodeStore (updNode r f s) = (nodeStore s)(r := f (nodeStore s r))"
  "nodeCount (updNode r f s) = nodeCount s"
  "heapStore (updNode r f s) = heapStore s"
  "heapCount (updNode r f s) = heapCount s"
  "mapStore (updNode r f s) = mapStore s"
  "mapCount (updNode r f s) = mapCount s"
  by (simp_all add: updNode_def)

lemma updMap_simps [simp]:
  "engine (updMap r g s) = engine s"
  "nodeStore (updMap r g s) = nodeStore s"
  "nodeCount (updMap r g s) = nodeCount s"
  "heapStore (updMap r g s) = heapStore s"
  "heapCount (updMap r g s) = heapCount s"
  "mapStore (updMap r g s) = (mapStore s)(r := g (mapStore s r))"
  "mapCount (updMap r g s) = mapCount s"
  by (simp_all add: updMap_def)

lemma updHeap_simps [simp]:
  "engine (updHeap h k e s) = engine s"
  "nodeStore (updHeap h k e s) = nodeStore s"
  "nodeCount (updHeap h k e s) = nodeCount s"
  "heapStore (updHeap h k e s) = (heapStore s)(h := (heapStore s h)(k \<mapsto> e))"
  "heapCount (updHeap h k e s) = heapCount s"
  "mapStore (updHeap h k e s) = mapStore s"
  "mapCount (updHeap h k e s) = mapCount s"
  by (simp_all add: updHeap_def)

lemma allocNode_simps [simp]:
  "fst (allocNode n s) = nodeCount s"
  "engine (snd (allocNode n s)) = engine s"
  "nodeStore (snd (allocNode n s)) = (nodeStore s)(nodeCount s := n)"
  "nodeCount (snd (allocNode n s)) = nodeCount s + 1"
  "heapStore (snd (allocNode n s)) = heapStore s"
  "heapCount (snd (allocNode n s)) = heapCount s"
  "mapStore (snd (allocNode n s)) = mapStore s"
  "mapCount (snd (allocNode n s)) = mapCount s"
  by (simp_all add: allocNode_def)

lemma allocMap_simps [simp]:
  "fst (allocMap m s) = mapCount s"
  "engine (snd (allocMap m s)) = engine s"
  "nodeStore (snd (allocMap m s)) = nodeStore s"
  "nodeCount (snd (allocMap m s)) = nodeCount s"
  "heapStore (snd (allocMap m s)) = heapStore s"
  "heapCount (snd (allocMap m s)) = heapCount s"
  "mapStore (snd (allocMap m s)) = (mapStore s)(mapCount s := m)"
  "mapCount (snd (allocMap m s)) = mapCount s + 1"
  by (simp_all add: allocMap_def)

lemma same_gates_refl [simp]: "same_gates s s"
  by (simp add: same_gates_def)

lemma same_gates_updNode [simp]: "same_gates s0 (updNode r f s) = same_gates s0 s"
  by (simp add: same_gates_def)

lemma same_gates_updHeap [simp]: "same_gates s0 (updHeap h k e s) = same_gates s0 s"
  by (simp add: same_gates_def)

lemma same_gates_allocNode [simp]: "same_gates s0 (snd (allocNode n s)) = same_gates s0 s"
  by (simp add: same_gates_def)

lemma same_gates_updMap [simp]:
  "(\<And>y. gate_fields (g y) = gate_fields y) \<Longrightarrow> same_gates s0 (updMap r g s) = same_gates s0 s"
  by (auto simp add: same_gates_def)

lemma same_gates_allocMap [simp]:
  "same_gates s0 s \<Longrightarrow> same_gates s0 (snd (allocMap m s))"
  by (simp add: same_gates_def)

lemma gate_fields_simps [simp]:
  "gate_fields (x\<lparr>head := a\<rparr>) = gate_fields x"
  "gate_fields (x\<lparr>tail := a\<rparr>) = gate_fields x"
  "gate_fields (x\<lparr>mlength := b\<rparr>) = gate_fields x"
  "gate_fields (x\<lparr>depth := c\<rparr>) = gate_fields x"
  "gate_fields (x\<lparr>change := d\<rparr>) = gate_fields x"
  "gate_fields (x\<lparr>version := e\<rparr>) = gate_fields x"
  "gate_fields (x\<lparr>childrenCount := f\<rparr>) = gate_fields x"
  "gate_fields (x\<lparr>ancestorMap := g\<rparr>) = gate_fields x"
  "gate_fields (x\<lparr>shouldNextForEachBreak := h\<rparr>) = gate_fields x"
  by (simp_all add: gate_fields_def)

lemma same_gates_bindNodes [simp]: "same_gates s0 (bindNodes m p n s) = same_gates s0 s"
  by (simp add: bindNodes_def bindSingleModeNodes_def bindMultiwayModeNodes_def
      bindLightweightModeNodes_def Let_def split: mode.split)

lemma same_gates_updateHeapMap [simp]:
  "same_gates s0 (snd (updateHeapMap m n s)) = same_gates s0 s"
  by (simp add: updateHeapMap_def updateSingleModeHeapMap_def updateMultiWayModeHeapMap_def
      updateLightweightModeHeapMap_def Let_def split: mode.split option.split hentry.split)

lemma same_gates_makeNode [simp]:
  "same_gates s0 (snd (makeImmutableLinkedOrderedMapNode m p n k v s)) = same_gates s0 s"
  by (simp add: makeImmutableLinkedOrderedMapNode_def)

lemma same_gates_orphan [simp]:
  "same_gates s0 (snd (addImmutableLinkedOrderedMapOrphanNode m k s)) = same_gates s0 s"
  by (simp add: addImmutableLinkedOrderedMapOrphanNode_def split_beta Let_def
      split: engine.split)

lemma same_gates_mapChange [simp]: "same_gates s0 (mapChange m c s) = same_gates s0 s"
  by (simp add: mapChange_def)

lemma same_gates_forkMap [simp]:
  "same_gates s0 s \<Longrightarrow> same_gates s0 (snd (forkMap m s))"
  by (simp add: forkMap_def forkMultiwayModeMap_def Let_def split_beta split: mode.split)

lemma same_gates_trans: "same_gates a b \<Longrightarrow> same_gates b c \<Longrightarrow> same_gates a c"
  by (auto simp add: same_gates_def)

lemma same_gates_set_fork [simp]:
  "same_gates s0 s \<Longrightarrow> same_gates s0 (snd (snd (set_fork this l s)))"
  by (simp add: set_fork_def split_beta split: option.split)

lemma same_gates_set_nodes [simp]:
  "same_gates s0 (snd (snd (set_nodes pm m n l s))) = same_gates s0 s"
  by (simp add: set_nodes_def Let_def split: option.split)

lemma same_gates_set_counted [simp]:
  "same_gates s0 (snd (set_counted m k v l s)) = same_gates s0 s"
  by (simp add: set_counted_def)

lemma same_gates_set_link [simp]:
  "same_gates s0 (snd (set_link m pm k v n l s)) = same_gates s0 s"
  by (simp add: set_link_def Let_def split_beta split: option.split)

lemma same_gates_set_insert:
  "same_gates s0 s \<Longrightarrow> same_gates s0 (snd (set_insert this pm k v l s))"
  by (simp add: set_insert_def Let_def split_beta split: option.split)

lemma same_gates_set_relink [simp]:
  "same_gates s0 (snd (set_relink m k v n p nx l s)) = same_gates s0 s"
  by (simp add: set_relink_def Let_def split_beta split: option.split)

lemma same_gates_set_update:
  "same_gates s0 s \<Longrightarrow> same_gates s0 (snd (set_update this k v node l s))"
  by (simp add: set_update_def Let_def split_beta split: option.split)

lemma same_gates_set_key:
  "same_gates s0 s \<Longrightarrow> same_gates s0 (snd (set_key this pm k v l s))"
  by (simp add: set_key_def same_gates_set_insert same_gates_set_update
      split: sum.split found.split)

lemma same_gates_set_item:
  "same_gates s0 (snd ls) \<Longrightarrow> same_gates s0 (snd (set_item this pm it ls))"
  by (simp add: set_item_def same_gates_set_key)

lemma same_gates_set_loop:
  "same_gates s0 (snd ls) \<Longrightarrow> same_gates s0 (snd (set_loop this pm items ls))"
  by (induction items arbitrary: ls) (simp_all add: same_gates_set_item)

lemma same_gates_set_loopEnd [simp]:
  "same_gates s0 (set_loopEnd pm l s) = same_gates s0 s"
  by (simp add: set_loopEnd_def Let_def split: option.split)

lemma same_gates_set:
  "same_gates s0 s \<Longrightarrow> same_gates s0 (snd (ImmutableLinkedOrderedMap_set this items pm s))"
  using same_gates_set_loop [of s0 "(initial_set_locals, s)" this pm "rev items"]
  by (simp add: ImmutableLinkedOrderedMap_set_def Let_def split_beta split: option.split)

lemma same_gates_replace_endpoints [simp]:
  "same_gates s0 (replace_endpoints m e n s) = same_gates s0 s"
  by (simp add: replace_endpoints_def Let_def)

lemma same_gates_replace_rebind [simp]:
  "same_gates s0 (replace_rebind this m e n s) = same_gates s0 s"
  by (simp add: replace_rebind_def Let_def split: option.split)

lemma same_gates_replace_add [simp]:
  "same_gates s0 (replace_add m n pm s) = same_gates s0 s"
  by (simp add: replace_add_def Let_def split: option.split)

lemma same_gates_replace_missing_link [simp]:
  "same_gates s0 (snd (replace_missing_link this m oldKey k v n ex pm s)) = same_gates s0 s"
  by (simp add: replace_missing_link_def split: found.split)

lemma same_gates_replace_missing:
  "same_gates s0 s \<Longrightarrow> same_gates s0 (snd (replace_missing this oldKey it pm s))"
  by (simp add: replace_missing_def Let_def split_beta split: option.split sum.split)

lemma same_gates_splice_previous [simp]:
  "same_gates s0 (splice_previous m node n ep p s) = same_gates s0 s"
  by (simp add: splice_previous_def split: option.split)

lemma same_gates_splice_next [simp]:
  "same_gates s0 (splice_next m node n en nx s) = same_gates s0 s"
  by (simp add: splice_next_def split: option.split)

lemma same_gates_replace_splice [simp]:
  "same_gates s0 (replace_splice this m node existent newNode previous nxt s) = same_gates s0 s"
  by (simp add: replace_splice_def Let_def)

lemma same_gates_replace_in_place [simp]:
  "same_gates s0 (replace_in_place m n p nx s) = same_gates s0 s"
  by (simp add: replace_in_place_def Let_def split: option.split)

lemma same_gates_replace_found_link [simp]:
  "same_gates s0 (snd (replace_found_link this m oldKey node k v n p nx ex pm s))
     = same_gates s0 s"
  by (simp add: replace_found_link_def split_beta split: found.split option.split)

lemma same_gates_replace_found:
  "same_gates s0 s \<Longrightarrow> same_gates s0 (snd (replace_found this oldKey node k v pm s))"
  by (simp add: replace_found_def Let_def split_beta split: option.split sum.split)

lemma same_gates_replace:
  "same_gates s0 s \<Longrightarrow>
   same_gates s0 (snd (ImmutableLinkedOrderedMap_replace this oldKey it am pm s))"
  by (simp add: ImmutableLinkedOrderedMap_replace_def
      same_gates_replace_missing same_gates_replace_found split: sum.split found.split)

lemma same_gates_appendInitialItem [simp]:
  "same_gates s0 (snd (snd (snd (appendInitialItem m k v ks ln s)))) = same_gates s0 s"
  by (simp add: appendInitialItem_def increment_length_and_record_def Let_def split_beta
      split: option.split)

lemma same_gates_appendInitialItems_loop:
  "same_gates s0 (snd (snd (snd acc))) \<Longrightarrow>
   same_gates s0 (snd (snd (snd (appendInitialItems_loop m items acc))))"
proof (induction items arbitrary: acc)
  case Nil
  then show ?case by simp
next
  case (Cons it rest)
  obtain thrown keysMap lastNode s where acc: "acc = (thrown, keysMap, lastNode, s)"
    by (cases acc) auto
  show ?case
    using Cons.prems unfolding acc
    by (auto intro!: Cons.IH)
qed

lemma same_gates_appendInitialItems_rest:
  "same_gates s0 s \<Longrightarrow> same_gates s0 (snd (appendInitialItems_rest m items tk nt pt s))"
  using same_gates_appendInitialItems_loop
    [of s0 "(None, fst (if keysMap_has [] tk then ([], s)
                        else increment_length_and_record m tk [] s), nt,
             snd (if keysMap_has [] tk then ([], s)
                  else increment_length_and_record m tk [] s))" m "rev (butlast items)"]
  by (simp add: appendInitialItems_rest_def increment_length_and_record_def Let_def split_beta
      split: option.split if_splits)

lemma same_gates_appendInitialItemsToMap:
  "same_gates s0 s \<Longrightarrow> same_gates s0 (snd (appendInitialItemsToMap m items s))"
  by (simp add: appendInitialItemsToMap_def Let_def split_beta
      same_gates_appendInitialItems_rest split: option.split)

lemma same_gates_hydrateNew:
  "same_gates s0 s \<Longrightarrow> same_gates s0 (snd (hydrateNew kpn md s))"
  by (simp add: hydrateNew_def Let_def same_gates_def)

lemma same_gates_newLazyMap [simp]:
  "same_gates s0 (newLazyMap m items s) = same_gates s0 s"
  by (simp add: newLazyMap_def)

lemma same_gates_factory:
  "same_gates s0 s \<Longrightarrow>
   same_gates s0 (snd (newImmutableLinkedOrderedMap items kpn md lz s))"
  by (simp add: newImmutableLinkedOrderedMap_def addInitialItemsToMap_def
      Let_def split_beta same_gates_appendInitialItemsToMap same_gates_hydrateNew
      split: sum.split option.split)

lemma same_gates_empty:
  "same_gates s0 s \<Longrightarrow> same_gates s0 (snd (ImmutableLinkedOrderedMap_empty this s))"
  using same_gates_factory [of s0 s "[]" "keyPropName (mapStore s this)"
      "Some (NumberValue (ImmutableLinkedOrderedMapMode (mode (mapStore s this))))" False]
  by (simp add: ImmutableLinkedOrderedMap_empty_def split_beta split: sum.split)

lemma same_gates_unset_head_link [simp]:
  "same_gates s0 (unset_head_link this m n nh s) = same_gates s0 s"
  by (simp add: unset_head_link_def Let_def split: option.split)

lemma same_gates_unset_tail_link [simp]:
  "same_gates s0 (unset_tail_link this m n nt s) = same_gates s0 s"
  by (simp add: unset_tail_link_def Let_def split: option.split)

lemma same_gates_unset_head [simp]:
  "same_gates s0 (snd (unset_head this m n s)) = same_gates s0 s"
  by (simp add: unset_head_def Let_def split_beta split: option.split)

lemma same_gates_unset_tail [simp]:
  "same_gates s0 (snd (unset_tail this m n s)) = same_gates s0 s"
  by (simp add: unset_tail_def Let_def split_beta split: option.split)

lemma same_gates_unset_repair [simp]:
  "same_gates s0 (snd (unset_repair this m p n s)) = same_gates s0 s"
  by (simp add: unset_repair_def split: option.split)

lemma same_gates_unset_found:
  "same_gates s0 s \<Longrightarrow> same_gates s0 (snd (unset_found this k node s))"
  by (simp add: unset_found_def Let_def split_beta split: option.split)

lemma same_gates_unset:
  "same_gates s0 s \<Longrightarrow> same_gates s0 (snd (ImmutableLinkedOrderedMap_unset this k s))"
  by (simp add: ImmutableLinkedOrderedMap_unset_def same_gates_unset_found
      split: sum.split found.split)

lemma same_gates_imp_grow: "same_gates s s' \<Longrightarrow> gates_grow s s'"
  by (simp add: same_gates_def gates_grow_def gate_fields_def)

lemma gates_grow_refl [simp]: "gates_grow s s"
  by (simp add: gates_grow_def)

lemma gates_grow_trans: "gates_grow a b \<Longrightarrow> gates_grow b c \<Longrightarrow> gates_grow a c"
  by (fastforce simp add: gates_grow_def)

lemma gates_grow_arm:
  "same_gates s (snd rs) \<Longrightarrow> gates_grow s (snd (arm this rs))"
  by (cases rs; cases "fst rs")
     (auto simp add: arm_def same_gates_def gates_grow_def gate_fields_def)

lemma same_gates_forEach_loop:
  "forEach_loop fuel this dir fn i u cur acc s = Some (a, s') \<Longrightarrow> same_gates s0 s
   \<Longrightarrow> same_gates s0 s'"
proof (induction fuel this dir fn i u cur acc s rule: forEach_loop.induct)
  case (1 fuel this dir fn i u acc s)
  then show ?case by simp
next
  case (2 this dir fn i u current acc s)
  then show ?case by simp
next
  case (3 fuel this dir fn i u current acc s)
  show ?case
  proof (cases "shouldNextForEachBreak (mapStore s this)")
    case True
    with "3.prems" show ?thesis by simp
  next
    case False
    obtain acc' r where step:
      "fn acc (element_value (nodeStore s current)) (element_key (nodeStore s current))
          (callback_index s i) = (acc', r)"
      by (cases "fn acc (element_value (nodeStore s current)) (element_key (nodeStore s current))
                   (callback_index s i)")
    show ?thesis
    proof (cases r)
      case Proceed
      with "3.prems" False step "3.IH"(1) [OF False step [symmetric] Proceed] show ?thesis
        by simp
    next
      case ReturnedFalse
      with "3.prems" False step show ?thesis by simp
    next
      case CalledBreak
      with "3.prems" False step "3.IH"(2) [OF False step [symmetric] CalledBreak]
      show ?thesis by simp
    qed
  qed
qed

lemma same_gates_forEach:
  "ImmutableLinkedOrderedMap_forEach fuel this fn reversed acc s = Some (a, s')
   \<Longrightarrow> same_gates s s'"
  by (auto simp add: ImmutableLinkedOrderedMap_forEach_def Let_def split: if_splits
      dest!: same_gates_forEach_loop [where ?s0.0 = s])

lemma same_gates_collect:
  "collect fuel this f reversed s = Some (r, s') \<Longrightarrow> same_gates s s'"
  by (auto simp add: collect_def split: if_splits dest: same_gates_forEach)

lemma gates_grow_call_forEach:
  "call_forEach fuel this fn reversed acc s = Some (r, s') \<Longrightarrow> gates_grow s s'"
  by (auto simp add: call_forEach_def LightweightMode_forEach_def
      split: mode.splits if_splits dest!: same_gates_forEach same_gates_imp_grow)

lemma gates_grow_call_values:
  "call_values fuel this reversed s = Some (r, s') \<Longrightarrow> gates_grow s s'"
  by (auto simp add: call_values_def LightweightMode_values_def
      ImmutableLinkedOrderedMap_values_def
      split: mode.splits if_splits dest!: same_gates_collect same_gates_imp_grow)

lemma gates_grow_call_keys:
  "call_keys fuel this reversed s = Some (r, s') \<Longrightarrow> gates_grow s s'"
  by (auto simp add: call_keys_def LightweightMode_keys_def ImmutableLinkedOrderedMap_keys_def
      split: mode.splits if_splits dest!: same_gates_collect same_gates_imp_grow)

lemma gates_grow_call_keysValues:
  "call_keysValues fuel this reversed s = Some (r, s') \<Longrightarrow> gates_grow s s'"
  by (auto simp add: call_keysValues_def LightweightMode_keysValues_def
      ImmutableLinkedOrderedMap_keysValues_def
      split: mode.splits if_splits dest!: same_gates_collect same_gates_imp_grow)

lemma gates_grow_call_map:
  "call_map fuel this fn reversed s = Some (r, s') \<Longrightarrow> gates_grow s s'"
  by (auto simp add: call_map_def LightweightMode_map_def ImmutableLinkedOrderedMap_map_def
      split: mode.splits if_splits dest!: same_gates_collect same_gates_imp_grow)

lemma gates_grow_call_break: "gates_grow s (snd (call_break this s))"
  by (auto simp add: call_break_def LightweightMode_break_def ImmutableLinkedOrderedMap_break_def
      split: mode.splits intro!: same_gates_imp_grow)

lemma gates_grow_call_set: "gates_grow s (snd (call_set this items pm s))"
  by (simp add: call_set_def SingleMode_set_def LightweightMode_set_def gates_grow_arm
      same_gates_set same_gates_imp_grow split: mode.split)

lemma gates_grow_call_replace: "gates_grow s (snd (call_replace this oldKey it am pm s))"
  by (simp add: call_replace_def SingleMode_replace_def LightweightMode_replace_def
      gates_grow_arm same_gates_replace same_gates_imp_grow split: mode.split)

lemma gates_grow_call_unset: "gates_grow s (snd (call_unset this k s))"
  by (simp add: call_unset_def SingleMode_unset_def LightweightMode_unset_def gates_grow_arm
      same_gates_unset same_gates_imp_grow split: mode.split)

lemma gates_grow_call_empty: "gates_grow s (snd (call_empty this s))"
  by (simp add: call_empty_def SingleMode_empty_def LightweightMode_empty_def gates_grow_arm
      same_gates_empty same_gates_imp_grow split: mode.split)

lemma gates_grow_call_mutation: "gates_grow s (snd (call_mutation mu this s))"
  by (cases mu)
     (simp_all add: gates_grow_call_set gates_grow_call_replace gates_grow_call_unset
        gates_grow_call_empty)

lemma gates_grow_exec: "exec c s = Some s' \<Longrightarrow> gates_grow s s'"
proof (cases c)
  case (New initialItems kpn givenMode lazy)
  assume "exec c s = Some s'"
  with New show ?thesis
    by (auto intro!: same_gates_imp_grow same_gates_factory split: sum.splits)
next
  case (Mutate this mu)
  assume "exec c s = Some s'"
  with Mutate show ?thesis
    by (auto simp add: gates_grow_call_mutation)
next
  case (ForEach fuel this fn reversed acc)
  assume "exec c s = Some s'"
  with ForEach show ?thesis
    by (auto dest: gates_grow_call_forEach)
next
  case (Break this)
  assume "exec c s = Some s'"
  with Break show ?thesis
    by (auto simp add: gates_grow_call_break)
next
  case (Values fuel this reversed)
  assume "exec c s = Some s'"
  with Values show ?thesis
    by (auto dest: gates_grow_call_values)
next
  case (Keys fuel this reversed)
  assume "exec c s = Some s'"
  with Keys show ?thesis
    by (auto dest: gates_grow_call_keys)
next
  case (KeysValues fuel this reversed)
  assume "exec c s = Some s'"
  with KeysValues show ?thesis
    by (auto dest: gates_grow_call_keysValues)
next
  case (MapCall fuel this fn reversed)
  assume "exec c s = Some s'"
  with MapCall show ?thesis
    by (auto dest: gates_grow_call_map)
qed

lemma gates_grow_run: "run cs s = Some s' \<Longrightarrow> gates_grow s s'"
proof (induction cs arbitrary: s)
  case Nil
  then show ?case by simp
next
  case (Cons c cs)
  then obtain s1 where "exec c s = Some s1" and "run cs s1 = Some s'"
    by (auto split: option.splits)
  then show ?case
    using Cons.IH gates_grow_exec gates_grow_trans by blast
qed

text \<open>A mutation that returns another map than the receiver leaves the receiver's flag set.\<close>

lemma arm_sets_flag:
  assumes "arm this rs = (Inr m', s1)" and "m' \<noteq> this"
  shows "mutationOperationOccurred (mapStore s1 this)"
    and "mapCount s1 = mapCount (snd rs)"
    and "mode (mapStore s1 this) = mode (mapStore (snd rs) this)"
  using assms by (cases rs; cases "fst rs"; auto simp add: arm_def)+

lemma same_gates_base_mutation: "same_gates s (snd (base_mutation mu this s))"
  by (cases mu)
     (simp_all add: base_mutation_def same_gates_set same_gates_replace same_gates_unset
        same_gates_empty)

lemma fresh_map_same_gates:
  "fresh_map s this m a \<Longrightarrow> same_gates a b \<Longrightarrow> fresh_map s this m b"
  by (auto simp add: fresh_map_def same_gates_def)

lemma forkMap_fst [simp]: "fst (forkMap this s) = mapCount s"
  by (simp add: forkMap_def Let_def split_beta)

lemma forkMap_fresh:
  "fresh_map s this (mapCount s) (snd (forkMap this s))"
  by (simp add: fresh_map_def forkMap_def forkMultiwayModeMap_def Let_def split_beta hydrate_def
      gate_fields_def split: mode.split)

lemma forkMap_fresh_later:
  assumes "same_gates s a" and "this < mapCount s"
  shows "fresh_map s this (mapCount a) (snd (forkMap this a))"
proof -
  have "fresh_map a this (mapCount a) (snd (forkMap this a))"
    by (rule forkMap_fresh)
  with assms show ?thesis
    by (auto simp add: fresh_map_def same_gates_def gate_fields_def)
qed

lemma unset_found_fresh:
  assumes "unset_found this k node s = (Inr m, s')"
  shows "fresh_map s this m s'"
proof -
  let ?f = "snd (forkMap this s)"
  have "m = mapCount s \<and> same_gates ?f s'"
    using assms
    by (auto simp add: unset_found_def Let_def split_beta split: option.splits)
  with forkMap_fresh [of s this] show ?thesis
    by (auto intro: fresh_map_same_gates)
qed

lemma unset_fresh:
  assumes "ImmutableLinkedOrderedMap_unset this k s = (Inr m, s')" and "m \<noteq> this"
  shows "fresh_map s this m s'"
  using assms
  by (auto simp add: ImmutableLinkedOrderedMap_unset_def unset_found_fresh
      split: sum.splits found.splits)

lemma replace_missing_fresh:
  assumes "replace_missing this oldKey it pm s = (Inr m, s')"
  shows "fresh_map s this m s'"
proof -
  let ?f = "snd (forkMap this s)"
  have "m = mapCount s \<and> same_gates ?f s'"
    using assms
    by (auto simp add: replace_missing_def replace_missing_link_def Let_def split_beta
        split: option.splits sum.splits found.splits if_splits)
  with forkMap_fresh [of s this] show ?thesis
    by (auto intro: fresh_map_same_gates)
qed

lemma replace_found_link_result:
  "replace_found_link this m oldKey node k v n p nx ex pm s = (Inr m', s') \<Longrightarrow>
   m' = m \<and> (\<forall>s0. same_gates s0 s \<longrightarrow> same_gates s0 s')"
  by (auto simp add: replace_found_link_def split_beta
      split: found.splits option.splits if_splits)

lemma replace_found_fresh:
  assumes "replace_found this oldKey node k v pm s = (Inr m, s')"
  shows "fresh_map s this m s'"
proof -
  let ?f = "snd (forkMap this s)"
  have "m = mapCount s \<and> same_gates ?f s'"
    using assms
    by (auto simp add: replace_found_def Let_def split_beta
        split: option.splits sum.splits if_splits dest!: replace_found_link_result)
  with forkMap_fresh [of s this] show ?thesis
    by (auto intro: fresh_map_same_gates)
qed

lemma replace_fresh:
  assumes "ImmutableLinkedOrderedMap_replace this oldKey it am pm s = (Inr m, s')"
    and "m \<noteq> this"
  shows "fresh_map s this m s'"
  using assms
  by (auto simp add: ImmutableLinkedOrderedMap_replace_def replace_missing_fresh
      replace_found_fresh split: sum.splits found.splits if_splits)

lemma hydrateNew_facts:
  "fst (hydrateNew kpn md s) = mapCount s"
  "mapCount (snd (hydrateNew kpn md s)) = mapCount s + 1"
  "gate_fields (mapStore (snd (hydrateNew kpn md s)) (mapCount s)) = (md, False)"
  by (simp_all add: hydrateNew_def Let_def hydrate_def gate_fields_def)

text \<open>The map that the factory returns is a new one, of the mode that was made.\<close>

lemma factory_result:
  assumes "newImmutableLinkedOrderedMap items kpn given lz s = (Inr m, s')"
  shows "m = mapCount s \<and> mapCount s < mapCount s'
         \<and> newMapFromMode (resolveMode (engine s) given) = Inr (mode (mapStore s' m))
         \<and> \<not> mutationOperationOccurred (mapStore s' m)"
proof -
  obtain md where md: "newMapFromMode (resolveMode (engine s) given) = Inr md"
    using assms by (auto simp add: newImmutableLinkedOrderedMap_def split: sum.splits)
  let ?h = "snd (hydrateNew kpn md s)"
  have "same_gates ?h s'" and "m = mapCount s"
    using assms md
    by (auto simp add: newImmutableLinkedOrderedMap_def addInitialItemsToMap_def Let_def
        split_beta hydrateNew_facts same_gates_appendInitialItemsToMap
        split: if_splits option.splits)
  then show ?thesis
    using md hydrateNew_facts [of kpn md s]
    by (auto simp add: same_gates_def gate_fields_def)
qed

lemma newMapFromMode_of_mode [simp]:
  "newMapFromMode (resolveMode e (Some (NumberValue (ImmutableLinkedOrderedMapMode md)))) = Inr md"
  by (cases md)
     (simp_all add: newMapFromMode_def resolveMode_def ImmutableLinkedOrderedMapMode_def
        ImmutableLinkedOrderedMapForMode_def string_of_int_def string_of_nat.simps
        digit_char_def)

lemma empty_fresh:
  assumes "ImmutableLinkedOrderedMap_empty this s = (Inr m, s')" and "m \<noteq> this"
  shows "fresh_map s this m s'"
proof -
  obtain s1 where f: "newImmutableLinkedOrderedMap [] (keyPropName (mapStore s this))
        (Some (NumberValue (ImmutableLinkedOrderedMapMode (mode (mapStore s this))))) False s
          = (Inr m, s1)"
    and s': "s' = mapChange m ChangeEmpty
                 (updMap m (\<lambda>x. x\<lparr>mlength := 0, depth := depth (mapStore s1 this) + 1,
                                      ancestorMap := Some this\<rparr>) s1)"
    using assms
    by (auto simp add: ImmutableLinkedOrderedMap_empty_def split: if_splits sum.splits prod.splits)
  show ?thesis
    using factory_result [OF f] unfolding s'
    by (auto simp add: fresh_map_def mapChange_def gate_fields_def)
qed

lemma set_fork_l_map [simp]:
  "l_map (fst (snd (set_fork this l a))) = Some (fst (set_fork this l a))"
  by (simp add: set_fork_def split_beta split: option.split)

lemma set_fork_fresh:
  assumes "set_inv s this (l, a)" and "this < mapCount s"
  shows "fresh_map s this (fst (set_fork this l a)) (snd (snd (set_fork this l a)))"
  using assms forkMap_fresh_later [of s a this]
  by (auto simp add: set_inv_def set_fork_def split_beta split: option.splits)

lemma set_nodes_l_map [simp]: "l_map (fst (snd (set_nodes pm m n l s))) = l_map l"
  by (simp add: set_nodes_def Let_def split: option.split)

lemma set_link_l_map [simp]: "l_map (fst (set_link m pm k v n l s)) = l_map l"
  by (simp add: set_link_def set_counted_def Let_def split_beta split: option.split)

lemma set_relink_l_map [simp]: "l_map (fst (set_relink m k v n p nx l s)) = l_map l"
  by (simp add: set_relink_def Let_def split_beta split: option.split)

lemma set_insert_l_map:
  "l_map (fst (set_insert this pm k v l a)) = Some (fst (set_fork this l a))"
  by (simp add: set_insert_def Let_def split_beta split: option.split)

lemma set_insert_after_fork:
  "same_gates (snd (snd (set_fork this l a))) (snd (set_insert this pm k v l a))"
  by (simp add: set_insert_def Let_def split_beta split: option.split)

lemma set_update_l_map:
  "l_map (fst (set_update this k v node l a)) = Some (fst (set_fork this l a))"
  by (simp add: set_update_def Let_def split_beta split: option.split)

lemma set_update_after_fork:
  "same_gates (snd (snd (set_fork this l a))) (snd (set_update this k v node l a))"
  by (simp add: set_update_def Let_def split_beta split: option.split)

lemma set_insert_inv:
  assumes "set_inv s this (l, a)" and "this < mapCount s"
  shows "set_inv s this (set_insert this pm k v l a)"
  using assms set_fork_fresh [OF assms] set_insert_after_fork [of this l a pm k v]
    same_gates_set_insert [of s a this pm k v l]
  by (auto simp add: set_inv_def set_insert_l_map intro: fresh_map_same_gates)

lemma set_update_inv:
  assumes "set_inv s this (l, a)" and "this < mapCount s"
  shows "set_inv s this (set_update this k v node l a)"
  using assms set_fork_fresh [OF assms] set_update_after_fork [of this l a k v node]
    same_gates_set_update [of s a this k v node l]
  by (auto simp add: set_inv_def set_update_l_map intro: fresh_map_same_gates)

lemma set_inv_keysMap:
  "set_inv s this (l\<lparr>l_keysMap := ks\<rparr>, a) = set_inv s this (l, a)"
  by (simp add: set_inv_def split: option.split)

lemma set_inv_thrown:
  "set_inv s this (l\<lparr>l_thrown := e\<rparr>, a) = set_inv s this (l, a)"
  by (simp add: set_inv_def split: option.split)

lemma set_key_inv:
  assumes "set_inv s this (l, a)" and "this < mapCount s"
  shows "set_inv s this (set_key this pm k v l a)"
  using assms
  by (auto simp add: set_key_def set_inv_thrown intro!: set_insert_inv set_update_inv
      split: sum.split found.split)

lemma set_item_inv:
  assumes "set_inv s this ls" and "this < mapCount s"
  shows "set_inv s this (set_item this pm it ls)"
  using assms set_key_inv [of s this "(fst ls)\<lparr>l_keysMap := fst (keyValueForItem it) # l_keysMap (fst ls)\<rparr>" "snd ls"]
  by (cases ls) (auto simp add: set_item_def set_inv_keysMap)

lemma set_loop_inv:
  "set_inv s this ls \<Longrightarrow> this < mapCount s \<Longrightarrow> set_inv s this (set_loop this pm items ls)"
  by (induction items arbitrary: ls) (simp_all add: set_item_inv)

lemma set_fresh:
  assumes "ImmutableLinkedOrderedMap_set this items pm s = (Inr m, s')" and "m \<noteq> this"
    and "this < mapCount s"
  shows "fresh_map s this m s'"
proof -
  let ?r = "set_loop this pm (rev items) (initial_set_locals, s)"
  have "set_inv s this (initial_set_locals, s)"
    by (simp add: set_inv_def initial_set_locals_def)
  then have inv: "set_inv s this ?r"
    using assms(3) by (rule set_loop_inv)
  have lm: "l_map (fst ?r) = Some m"
    and s': "s' = mapChange m (ChangeSet (l_inserted (fst ?r)) (l_updated (fst ?r)) pm)
                    (set_loopEnd pm (fst ?r) (snd ?r))"
    using assms(1,2)
    by (auto simp add: ImmutableLinkedOrderedMap_set_def Let_def split_beta
        split: if_splits option.splits)
  have "fresh_map s this m (snd ?r)"
    using inv lm by (simp add: set_inv_def)
  moreover have "same_gates (snd ?r) s'"
    unfolding s' by simp
  ultimately show ?thesis
    by (rule fresh_map_same_gates)
qed

lemma base_mutation_fresh:
  assumes "base_mutation mu this s = (Inr m, s')" and "m \<noteq> this" and "this < mapCount s"
  shows "fresh_map s this m s'"
  using assms
  by (cases mu)
     (auto simp add: base_mutation_def dest: set_fresh replace_fresh unset_fresh empty_fresh)

lemma single_call_mutation:
  "mode (mapStore s this) = SINGLE \<Longrightarrow>
   call_mutation mu this s =
     (if mutationOperationOccurred (mapStore s this)
      then (Inl (SingleModeMutationAlreadyOccurred (operation_name mu)), s)
      else arm this (base_mutation mu this s))"
  by (cases mu)
     (simp_all add: base_mutation_def call_set_def call_replace_def call_unset_def call_empty_def
        SingleMode_set_def SingleMode_replace_def SingleMode_unset_def SingleMode_empty_def)

lemma lightweight_call_mutation:
  "mode (mapStore s this) = LIGHTWEIGHT \<Longrightarrow>
   call_mutation mu this s =
     (if mutationOperationOccurred (mapStore s this)
      then (Inl (LightweightModePostMutationUse (operation_name mu)), s)
      else arm this (base_mutation mu this s))"
  by (cases mu)
     (simp_all add: base_mutation_def call_set_def call_replace_def call_unset_def call_empty_def
        LightweightMode_set_def LightweightMode_replace_def LightweightMode_unset_def
        LightweightMode_empty_def)

text \<open>What a gated mutation that returns leaves behind, in either gated mode.\<close>

lemma gated_mutation_returns:
  assumes lt: "M < mapCount s"
    and call: "call_mutation mu M s = (Inr M', s1)"
    and md: "mode (mapStore s M) = SINGLE \<or> mode (mapStore s M) = LIGHTWEIGHT"
  shows "M < mapCount s1"
    and "mode (mapStore s1 M) = mode (mapStore s M)"
    and "mutationOperationOccurred (mapStore s1 M) = (M' \<noteq> M)"
    and "M' \<noteq> M \<Longrightarrow> M' < mapCount s1 \<and> mode (mapStore s1 M') = mode (mapStore s M)
           \<and> \<not> mutationOperationOccurred (mapStore s1 M')"
proof -
  obtain rb sb where base: "base_mutation mu M s = (rb, sb)"
    by (cases "base_mutation mu M s")
  have clear: "\<not> mutationOperationOccurred (mapStore s M)"
    and armed: "arm M (rb, sb) = (Inr M', s1)"
    using call md base
    by (auto simp add: single_call_mutation lightweight_call_mutation split: if_splits)
  have rb: "rb = Inr M'"
    using armed by (cases rb) (auto simp add: arm_def)
  have sg: "same_gates s sb"
    using same_gates_base_mutation [of s mu M] base by simp
  then have keep: "gate_fields (mapStore sb M) = gate_fields (mapStore s M)"
    and cnt: "mapCount s \<le> mapCount sb"
    using lt by (auto simp add: same_gates_def)
  have s1: "s1 = (if M \<noteq> M' then updMap M (\<lambda>x. x\<lparr>mutationOperationOccurred := True\<rparr>) sb else sb)"
    using armed rb by (auto simp add: arm_def)
  show "M < mapCount s1"
    using s1 cnt lt by auto
  show "mode (mapStore s1 M) = mode (mapStore s M)"
    using s1 keep by (auto simp add: gate_fields_def)
  show "mutationOperationOccurred (mapStore s1 M) = (M' \<noteq> M)"
    using s1 keep clear by (auto simp add: gate_fields_def)
  show "M' < mapCount s1 \<and> mode (mapStore s1 M') = mode (mapStore s M)
           \<and> \<not> mutationOperationOccurred (mapStore s1 M')" if ne: "M' \<noteq> M"
  proof -
    have "fresh_map s M M' sb"
      using base rb ne lt by (auto intro: base_mutation_fresh)
    then show ?thesis
      using s1 ne by (auto simp add: fresh_map_def gate_fields_def)
  qed
qed

lemma gates_grow_keeps:
  assumes "gates_grow a b" and "M < mapCount a" and "mutationOperationOccurred (mapStore a M)"
  shows "mutationOperationOccurred (mapStore b M)" and "mode (mapStore b M) = mode (mapStore a M)"
  using assms by (auto simp add: gates_grow_def)

text \<open>The definitions that running the engine on a given store unfolds.\<close>

lemmas engine_defs =
  Object_prototype_def inherited_def ImmutableLinkedOrderedMapMode_def DEFAULT_MAP_MODE_def
  DEFAULT_KEY_PROP_NAME_def MULTIWAY_MODE_INITIAL_MAP_TREE_DEPTH_VERSION_def
  MULTIWAY_MODE_MAP_TREE_DEPTH_VERSION_SEPARATOR_def digit_char_def string_of_int_def
  ImmutableLinkedOrderedMapForMode_def resolveMode_def newMapFromMode_def lom_has_def
  lom_set_def isAncestorVersionOfDescendantVersion_def blank_node_def blank_map_def
  init_state_def allocNode_def updNode_def updMap_def updHeap_def makeNode_def
  direction_links_def nodeOrUndefined_def lookup_return_def depth_links_set_def
  bindSingleModeNodes_def makeSingleModeImmutableLinkedOrderedMapNode_def
  findSingleModeMapNodeByDirection_def updateSingleModeHeapMap_def lookupSingleMode_def
  version_links_set_def bindMultiwayModeNodes_def
  makeMultiwayModeImmutableLinkedOrderedMapNode_def findMultiwayModeMapNodeByDirection_def
  stack_set_def updateMultiWayModeHeapMap_def lookupMultiwayMode_def forked_version_def
  forkMultiwayModeMap_def bindLightweightModeNodes_def raw_link_def along_prototype_chain_def
  lookupLightweightMode_def updateLightweightModeHeapMap_def
  findLightweightModeMapNodeByDirection_def
  makeLightweightModeImmutableLinkedOrderedMapNode_def lookup_def updateHeapMap_def
  findMapNodeByDirection_def makeImmutableLinkedOrderedMapNode_def bindNodes_def hydrate_def
  allocMap_def hydrateNew_def forkMap_def addImmutableLinkedOrderedMapOrphanNode_def
  mapChange_def keysMap_has_def increment_length_and_record_def appendInitialItem_def
  appendInitialItems_rest_def appendInitialItemsToMap_def newLazyMap_def
  addInitialItemsToMap_def newImmutableLinkedOrderedMap_def initial_set_locals_def set_fork_def
  set_nodes_def set_counted_def set_link_def set_insert_def set_neighbour_def set_relink_def
  set_update_def set_key_def set_item_def set_loopEnd_def ImmutableLinkedOrderedMap_set_def
  replace_endpoints_def replace_rebind_def replace_add_def replace_missing_link_def
  replace_missing_def splice_previous_def splice_next_def replace_splice_def
  replace_in_place_def replace_found_link_def replace_found_def
  ImmutableLinkedOrderedMap_replace_def unset_head_link_def unset_head_def unset_tail_link_def
  unset_tail_def unset_repair_def unset_found_def ImmutableLinkedOrderedMap_unset_def
  ImmutableLinkedOrderedMap_empty_def ImmutableLinkedOrderedMap_get_def
  ImmutableLinkedOrderedMap_first_def ImmutableLinkedOrderedMap_last_def
  ImmutableLinkedOrderedMap_isEmpty_def callback_index_def
  ImmutableLinkedOrderedMap_forEach_def ImmutableLinkedOrderedMap_break_def new_Array_def
  array_put_def collect_def reversed_read_def ImmutableLinkedOrderedMap_values_def
  ImmutableLinkedOrderedMap_keys_def ImmutableLinkedOrderedMap_keysValues_def
  ImmutableLinkedOrderedMap_map_def arm_def SingleMode_set_def SingleMode_replace_def
  SingleMode_unset_def SingleMode_empty_def LightweightMode_set_def LightweightMode_replace_def
  LightweightMode_unset_def LightweightMode_empty_def lightweight_gate_def
  LightweightMode_get_def LightweightMode_first_def LightweightMode_last_def
  LightweightMode_isEmpty_def LightweightMode_forEach_def LightweightMode_break_def
  LightweightMode_values_def LightweightMode_keys_def LightweightMode_keysValues_def
  LightweightMode_map_def call_set_def call_replace_def call_unset_def call_empty_def
  call_get_def call_first_def call_last_def call_isEmpty_def call_forEach_def call_values_def
  call_keys_def call_keysValues_def call_map_def call_break_def Let_def string_of_nat.simps

section \<open>The gates\<close>

text \<open>
  Let \<open>M\<close> be a single-mode map of the store and let a mutation (\<open>set\<close>, \<open>replace\<close>,
  \<open>unset\<close> or \<open>empty\<close>, with any arguments) called on it return. If the result is a
  map other than \<open>M\<close>, then after any further calls of the interface, on any maps,
  every mutation called on \<open>M\<close> throws the single-mode error that names the
  operation, and the store is as it was before the call; \<open>first\<close>, \<open>last\<close> and
  \<open>isEmpty\<close> of \<open>M\<close> return. If the result is \<open>M\<close> itself, the flag of \<open>M\<close> stays
  clear and the next mutation is carried out by the base method.
\<close>

theorem single_mode_gate:
  assumes "M < mapCount s" and "mode (mapStore s M) = SINGLE"
    and "call_mutation mu M s = (r, s1)"
  shows
    "(\<forall>M' cmds s2. r = Inr M' \<and> M' \<noteq> M \<and> run cmds s1 = Some s2 \<longrightarrow>
        (\<forall>mu'. call_mutation mu' M s2 =
                 (Inl (SingleModeMutationAlreadyOccurred (operation_name mu')), s2))
        \<and> call_first s2 M = Inr (ImmutableLinkedOrderedMap_first s2 M)
        \<and> call_last s2 M = Inr (ImmutableLinkedOrderedMap_last s2 M)
        \<and> call_isEmpty s2 M = Inr (ImmutableLinkedOrderedMap_isEmpty s2 M))
     \<and> (r = Inr M \<longrightarrow>
          \<not> mutationOperationOccurred (mapStore s1 M)
          \<and> (\<forall>mu'. call_mutation mu' M s1 = arm M (base_mutation mu' M s1)))"
proof (intro conjI allI impI)
  fix M' cmds s2
  assume h: "r = Inr M' \<and> M' \<noteq> M \<and> run cmds s1 = Some s2"
  then have call: "call_mutation mu M s = (Inr M', s1)"
    using assms(3) by simp
  note g = gated_mutation_returns [OF assms(1) call disjI1 [OF assms(2)]]
  have "gates_grow s1 s2"
    using h by (auto intro: gates_grow_run)
  then have flag: "mutationOperationOccurred (mapStore s2 M)"
    and md: "mode (mapStore s2 M) = SINGLE"
    using gates_grow_keeps [of s1 s2 M] g(1,2,3) h assms(2) by auto
  show "call_mutation mu' M s2 =
          (Inl (SingleModeMutationAlreadyOccurred (operation_name mu')), s2)" for mu'
    using flag md by (simp add: single_call_mutation)
  show "call_first s2 M = Inr (ImmutableLinkedOrderedMap_first s2 M)"
    using md by (simp add: call_first_def)
  show "call_last s2 M = Inr (ImmutableLinkedOrderedMap_last s2 M)"
    using md by (simp add: call_last_def)
  show "call_isEmpty s2 M = Inr (ImmutableLinkedOrderedMap_isEmpty s2 M)"
    using md by (simp add: call_isEmpty_def)
next
  assume r: "r = Inr M"
  then have call: "call_mutation mu M s = (Inr M, s1)"
    using assms(3) by simp
  note g = gated_mutation_returns [OF assms(1) call disjI1 [OF assms(2)]]
  show clear: "\<not> mutationOperationOccurred (mapStore s1 M)"
    using g(3) by simp
  show "call_mutation mu' M s1 = arm M (base_mutation mu' M s1)" for mu'
    using clear g(2) assms(2) by (simp add: single_call_mutation)
qed

text \<open>
  Let \<open>M\<close> be a lightweight-mode map of the store and let a mutation called on it
  return. If the result is a map \<open>M'\<close> other than \<open>M\<close>, then after any further calls
  of the interface every operation on \<open>M\<close> throws the lightweight-mode error that
  names the operation (the four mutations, \<open>get\<close>, \<open>first\<close>, \<open>last\<close>, \<open>isEmpty\<close>,
  \<open>forEach\<close>, \<open>break\<close>, \<open>keys\<close>, \<open>values\<close>, \<open>keysValues\<close>, \<open>map\<close>) and leaves the
  store as it was, while the gate of the successor \<open>M'\<close> is open. If the result is \<open>M\<close>
  itself, the gate of \<open>M\<close> stays open.
\<close>

theorem lightweight_mode_gate:
  assumes "M < mapCount s" and "mode (mapStore s M) = LIGHTWEIGHT"
    and "call_mutation mu M s = (r, s1)"
  shows
    "(\<forall>M'. r = Inr M' \<and> M' \<noteq> M \<longrightarrow>
        (\<forall>cmds s2. run cmds s1 = Some s2 \<longrightarrow>
           (\<forall>mu'. call_mutation mu' M s2 =
                    (Inl (LightweightModePostMutationUse (operation_name mu')), s2))
           \<and> (\<forall>k. call_get s2 M k = Inl (LightweightModePostMutationUse ''get''))
           \<and> call_first s2 M = Inl (LightweightModePostMutationUse ''first'')
           \<and> call_last s2 M = Inl (LightweightModePostMutationUse ''last'')
           \<and> call_isEmpty s2 M = Inl (LightweightModePostMutationUse ''isEmpty'')
           \<and> (\<forall>fuel fn reversed acc.
                 call_forEach fuel M fn reversed (acc :: 'a) s2 =
                   Some (Inl (LightweightModePostMutationUse ''forEach''), s2))
           \<and> call_break M s2 = (Inl (LightweightModePostMutationUse ''break''), s2)
           \<and> (\<forall>fuel reversed. call_keys fuel M reversed s2 =
                   Some (Inl (LightweightModePostMutationUse ''keys''), s2))
           \<and> (\<forall>fuel reversed. call_values fuel M reversed s2 =
                   Some (Inl (LightweightModePostMutationUse ''values''), s2))
           \<and> (\<forall>fuel reversed. call_keysValues fuel M reversed s2 =
                   Some (Inl (LightweightModePostMutationUse ''keysValues''), s2))
           \<and> (\<forall>fuel fn reversed.
                 call_map fuel M (fn :: jsval \<Rightarrow> key \<Rightarrow> int \<Rightarrow> 'b) reversed s2 =
                   Some (Inl (LightweightModePostMutationUse ''map''), s2)))
        \<and> M' < mapCount s1 \<and> mode (mapStore s1 M') = LIGHTWEIGHT
        \<and> \<not> mutationOperationOccurred (mapStore s1 M')
        \<and> (\<forall>mu'. call_mutation mu' M' s1 = arm M' (base_mutation mu' M' s1))
        \<and> call_first s1 M' = Inr (ImmutableLinkedOrderedMap_first s1 M')
        \<and> call_last s1 M' = Inr (ImmutableLinkedOrderedMap_last s1 M')
        \<and> call_isEmpty s1 M' = Inr (ImmutableLinkedOrderedMap_isEmpty s1 M'))
     \<and> (r = Inr M \<longrightarrow>
          \<not> mutationOperationOccurred (mapStore s1 M)
          \<and> (\<forall>mu'. call_mutation mu' M s1 = arm M (base_mutation mu' M s1)))"
proof (intro conjI allI impI)
  fix M' cmds s2
  assume h: "r = Inr M' \<and> M' \<noteq> M" and run: "run cmds s1 = Some s2"
  then have call: "call_mutation mu M s = (Inr M', s1)"
    using assms(3) by simp
  note g = gated_mutation_returns [OF assms(1) call disjI2 [OF assms(2)]]
  have "gates_grow s1 s2"
    using run by (rule gates_grow_run)
  then have flag: "mutationOperationOccurred (mapStore s2 M)"
    and md: "mode (mapStore s2 M) = LIGHTWEIGHT"
    using gates_grow_keeps [of s1 s2 M] g(1,2,3) h assms(2) by auto
  show "call_mutation mu' M s2 =
          (Inl (LightweightModePostMutationUse (operation_name mu')), s2)" for mu'
    using flag md by (simp add: lightweight_call_mutation)
  show "call_get s2 M k = Inl (LightweightModePostMutationUse ''get'')" for k
    using flag md by (simp add: call_get_def LightweightMode_get_def)
  show "call_first s2 M = Inl (LightweightModePostMutationUse ''first'')"
    using flag md by (simp add: call_first_def LightweightMode_first_def lightweight_gate_def)
  show "call_last s2 M = Inl (LightweightModePostMutationUse ''last'')"
    using flag md by (simp add: call_last_def LightweightMode_last_def lightweight_gate_def)
  show "call_isEmpty s2 M = Inl (LightweightModePostMutationUse ''isEmpty'')"
    using flag md
    by (simp add: call_isEmpty_def LightweightMode_isEmpty_def lightweight_gate_def)
  show "call_forEach fuel M fn reversed (acc :: 'a) s2 =
          Some (Inl (LightweightModePostMutationUse ''forEach''), s2)"
    for fuel fn reversed acc
    using flag md by (simp add: call_forEach_def LightweightMode_forEach_def)
  show "call_break M s2 = (Inl (LightweightModePostMutationUse ''break''), s2)"
    using flag md by (simp add: call_break_def LightweightMode_break_def)
  show "call_keys fuel M reversed s2 =
          Some (Inl (LightweightModePostMutationUse ''keys''), s2)" for fuel reversed
    using flag md by (simp add: call_keys_def LightweightMode_keys_def)
  show "call_values fuel M reversed s2 =
          Some (Inl (LightweightModePostMutationUse ''values''), s2)" for fuel reversed
    using flag md by (simp add: call_values_def LightweightMode_values_def)
  show "call_keysValues fuel M reversed s2 =
          Some (Inl (LightweightModePostMutationUse ''keysValues''), s2)" for fuel reversed
    using flag md by (simp add: call_keysValues_def LightweightMode_keysValues_def)
  show "call_map fuel M (fn :: jsval \<Rightarrow> key \<Rightarrow> int \<Rightarrow> 'b) reversed s2 =
          Some (Inl (LightweightModePostMutationUse ''map''), s2)" for fuel fn reversed
    using flag md by (simp add: call_map_def LightweightMode_map_def)
next
  fix M'
  assume h: "r = Inr M' \<and> M' \<noteq> M"
  then have call: "call_mutation mu M s = (Inr M', s1)"
    using assms(3) by simp
  note g = gated_mutation_returns [OF assms(1) call disjI2 [OF assms(2)]]
  show lt: "M' < mapCount s1"
    using g(4) h by simp
  show md: "mode (mapStore s1 M') = LIGHTWEIGHT"
    using g(4) h assms(2) by simp
  show clear: "\<not> mutationOperationOccurred (mapStore s1 M')"
    using g(4) h by simp
  show "call_mutation mu' M' s1 = arm M' (base_mutation mu' M' s1)" for mu'
    using clear md by (simp add: lightweight_call_mutation)
  show "call_first s1 M' = Inr (ImmutableLinkedOrderedMap_first s1 M')"
    using clear md by (simp add: call_first_def LightweightMode_first_def lightweight_gate_def)
  show "call_last s1 M' = Inr (ImmutableLinkedOrderedMap_last s1 M')"
    using clear md by (simp add: call_last_def LightweightMode_last_def lightweight_gate_def)
  show "call_isEmpty s1 M' = Inr (ImmutableLinkedOrderedMap_isEmpty s1 M')"
    using clear md
    by (simp add: call_isEmpty_def LightweightMode_isEmpty_def lightweight_gate_def)
next
  assume r: "r = Inr M"
  then have call: "call_mutation mu M s = (Inr M, s1)"
    using assms(3) by simp
  note g = gated_mutation_returns [OF assms(1) call disjI2 [OF assms(2)]]
  show clear: "\<not> mutationOperationOccurred (mapStore s1 M)"
    using g(3) by simp
  show "call_mutation mu' M s1 = arm M (base_mutation mu' M s1)" for mu'
    using clear g(2) assms(2) by (simp add: lightweight_call_mutation)
qed

section \<open>The factory returns\<close>

text \<open>
  A new node and its entry in the heap: what they leave alone, and that the entry is
  written without an error when the key is no inherited name, or the mode is the
  lightweight one.
\<close>

lemma makeNode_frame [simp]:
  "fst (makeImmutableLinkedOrderedMapNode m p n k v s) = nodeCount s"
  "engine (snd (makeImmutableLinkedOrderedMapNode m p n k v s)) = engine s"
  "mapStore (snd (makeImmutableLinkedOrderedMapNode m p n k v s)) = mapStore s"
  "mapCount (snd (makeImmutableLinkedOrderedMapNode m p n k v s)) = mapCount s"
  "heapStore (snd (makeImmutableLinkedOrderedMapNode m p n k v s)) = heapStore s"
  "heapCount (snd (makeImmutableLinkedOrderedMapNode m p n k v s)) = heapCount s"
  "nodeCount (snd (makeImmutableLinkedOrderedMapNode m p n k v s)) = nodeCount s + 1"
  by (simp_all add: makeImmutableLinkedOrderedMapNode_def)

lemma makeNode_element [simp]:
  "element_key (nodeStore (snd (makeImmutableLinkedOrderedMapNode m p n k v s)) (nodeCount s)) = k"
  "element_value (nodeStore (snd (makeImmutableLinkedOrderedMapNode m p n k v s)) (nodeCount s)) = v"
  "isOrphanNode (nodeStore (snd (makeImmutableLinkedOrderedMapNode m p n k v s)) (nodeCount s)) = False"
  by (simp_all add: makeImmutableLinkedOrderedMapNode_def
      makeSingleModeImmutableLinkedOrderedMapNode_def makeMultiwayModeImmutableLinkedOrderedMapNode_def
      makeLightweightModeImmutableLinkedOrderedMapNode_def makeNode_def Let_def split: mode.split)

lemma makeNode_others:
  "x \<noteq> nodeCount s \<Longrightarrow>
   nodeStore (snd (makeImmutableLinkedOrderedMapNode m p n k v s)) x = nodeStore s x"
  by (simp add: makeImmutableLinkedOrderedMapNode_def)

lemma bindNodes_frame [simp]:
  "engine (bindNodes m p n s) = engine s"
  "mapStore (bindNodes m p n s) = mapStore s"
  "mapCount (bindNodes m p n s) = mapCount s"
  "heapStore (bindNodes m p n s) = heapStore s"
  "heapCount (bindNodes m p n s) = heapCount s"
  "nodeCount (bindNodes m p n s) = nodeCount s"
  by (simp_all add: bindNodes_def bindSingleModeNodes_def bindMultiwayModeNodes_def
      bindLightweightModeNodes_def Let_def split: mode.split)

lemma bindNodes_element [simp]:
  "element_key (nodeStore (bindNodes m p n s) x) = element_key (nodeStore s x)"
  "element_value (nodeStore (bindNodes m p n s) x) = element_value (nodeStore s x)"
  "isOrphanNode (nodeStore (bindNodes m p n s) x) = isOrphanNode (nodeStore s x)"
  by (simp_all add: bindNodes_def bindSingleModeNodes_def bindMultiwayModeNodes_def
      bindLightweightModeNodes_def Let_def split: mode.split)

lemma updateHeapMap_frame [simp]:
  "engine (snd (updateHeapMap m n s)) = engine s"
  "mapStore (snd (updateHeapMap m n s)) = mapStore s"
  "mapCount (snd (updateHeapMap m n s)) = mapCount s"
  "nodeStore (snd (updateHeapMap m n s)) = nodeStore s"
  "nodeCount (snd (updateHeapMap m n s)) = nodeCount s"
  "heapCount (snd (updateHeapMap m n s)) = heapCount s"
  by (simp_all add: updateHeapMap_def updateSingleModeHeapMap_def updateMultiWayModeHeapMap_def
      updateLightweightModeHeapMap_def Let_def split: mode.split option.split hentry.split)






lemma heap_fits_makeNode [simp]:
  "heap_fits (snd (makeImmutableLinkedOrderedMapNode m' p n k v s)) m = heap_fits s m"
  by (simp add: heap_fits_def)

lemma heap_fits_bindNodes [simp]:
  "heap_fits (bindNodes m' p n s) m = heap_fits s m"
  by (simp add: heap_fits_def)

lemma heap_fits_increment [simp]:
  "heap_fits (snd (increment_length_and_record m' k ks s)) m = heap_fits s m"
  by (simp add: heap_fits_def increment_length_and_record_def Let_def)

lemma mode_increment [simp]:
  "mode (mapStore (snd (increment_length_and_record m' k ks s)) m) = mode (mapStore s m)"
  by (simp add: increment_length_and_record_def Let_def)








lemma string_of_nat_short:
  "n < 10 \<Longrightarrow> string_of_nat n = [digit_char n]"
  by (subst string_of_nat.simps) simp





text \<open>The earlier copy has single mode where the later one has multiway mode.\<close>

lemma earlier_default_mode:
  "engine s = Earlier \<Longrightarrow>
   newImmutableLinkedOrderedMap initialItems kpn None lz s
     = newImmutableLinkedOrderedMap initialItems kpn
         (Some (NumberValue (ImmutableLinkedOrderedMapMode SINGLE))) lz s"
  by (simp add: newImmutableLinkedOrderedMap_def resolveMode_def ImmutableLinkedOrderedMapMode_def
      string_of_int_def string_of_nat_short digit_char_def DEFAULT_MAP_MODE_def
      ImmutableLinkedOrderedMapForMode_def)

section \<open>The claims\<close>

text \<open>
  C1 fails on the code, in both copies. The factory called with two items of the same
  key, which is the key of the last item, returns a map of length 2 whose walk visits
  that key twice: the table of seen keys does not record the last item's key, since
  \<open>map.length++ && (keysMap[tailKey] = true)\<close> tests the length before the increment.
\<close>

theorem duplicate_initial_key_visited_twice:
  "fst (dup_items Later) = Inr 0
   \<and> mlength (mapStore (snd (dup_items Later)) 0) = 2
   \<and> map_option fst (call_keys (Suc (Suc (Suc 0))) 0 False (snd (dup_items Later)))
        = Some (Inr [Some ''1'', Some ''1''])
   \<and> map_option fst (call_values (Suc (Suc (Suc 0))) 0 False (snd (dup_items Later)))
        = Some (Inr [Some (Value 1), Some (Value 2)])
   \<and> fst (dup_items Earlier) = Inr 0
   \<and> mlength (mapStore (snd (dup_items Earlier)) 0) = 2
   \<and> map_option fst (call_keys (Suc (Suc (Suc 0))) 0 False (snd (dup_items Earlier)))
        = Some (Inr [Some ''1'', Some ''1''])"
  by (simp add: dup_items_def engine_defs cong: let_weak_cong) (simp add: numeral_2_eq_2)

text \<open>
  C2 fails on the earlier copy, the one the claim cites. There the tenth child of a
  multiway root has the version \<open>10\<close>, of which the first child's version \<open>1\<close> is a
  prefix: the tenth child reads the key that only the first child set, which the second
  child does not see. The later copy ends every version with the separator (\<open>1#\<close>,
  \<open>10#\<close>), and its tenth child does not see the key.
\<close>

theorem tenth_child_reads_first_child:
  "version (mapStore (ten_children_state Earlier) 1) = ''1''
   \<and> version (mapStore (ten_children_state Earlier) 10) = ''10''
   \<and> call_get (ten_children_state Earlier) 1 ''a'' = Inr (Value 1)
   \<and> call_get (ten_children_state Earlier) 2 ''a'' = Inr Undefined
   \<and> call_get (ten_children_state Earlier) 10 ''a'' = Inr (Value 1)
   \<and> version (mapStore (ten_children_state Later) 10) = ''10#''
   \<and> call_get (ten_children_state Later) 10 ''a'' = Inr Undefined"
  by (simp add: engine_defs ten_children_def ten_children_state_def cong: let_weak_cong)

text \<open>
  C6 fails on the code, in both copies. \<open>replace\<close> of an absent key with \<open>addMissing\<close>
  and an item whose key the map holds with another value appends a second node of that
  key: the length grows to 2 and the walk visits the key twice. With the value the map
  holds, the result is a new map too, not the receiver.
\<close>

theorem replace_missing_duplicates_key:
  "fst (call_replace 0 ''9'' (ItemPair ''1'' (Value 2)) True False (one_item Later)) = Inr 1
   \<and> mlength (mapStore
         (snd (call_replace 0 ''9'' (ItemPair ''1'' (Value 2)) True False (one_item Later))) 1) = 2
   \<and> map_option fst (call_keys (Suc (Suc (Suc 0))) 1 False
         (snd (call_replace 0 ''9'' (ItemPair ''1'' (Value 2)) True False (one_item Later))))
       = Some (Inr [Some ''1'', Some ''1''])
   \<and> fst (call_replace 0 ''9'' (ItemPair ''1'' (Value 1)) True False (one_item Later)) = Inr 1
   \<and> fst (call_replace 0 ''9'' (ItemPair ''1'' (Value 2)) True False (one_item Earlier)) = Inr 1
   \<and> map_option fst (call_keys (Suc (Suc (Suc 0))) 1 False
         (snd (call_replace 0 ''9'' (ItemPair ''1'' (Value 2)) True False (one_item Earlier))))
       = Some (Inr [Some ''1'', Some ''1''])"
  by (simp add: one_item_def engine_defs cong: let_weak_cong) (simp add: numeral_2_eq_2)

text \<open>
  C7 fails on the code where it says that the reads of a single-mode map still succeed
  once its gate is armed. In the earlier copy the map \<open>m3\<close> of the three calls of
  \<open>replace\<close> has the length -1, since \<open>replace\<close> lowers the length for an item that the
  map already holds without taking a node out; \<open>set\<close> on it returns another map, after
  which \<open>unset\<close> on it is refused, and \<open>keys\<close> and \<open>values\<close> throw a RangeError. In both
  copies \<open>get\<close> of a name that objects inherit throws a TypeError on the armed map.
\<close>

theorem single_mode_reads_throw:
  "fst (call_set 3 [ItemPair ''x'' (Value 9)] False (replaced_thrice (single_one Earlier)))
     = Inr 4
   \<and> mode (mapStore (replaced_and_set (single_one Earlier)) 3) = SINGLE
   \<and> mlength (mapStore (replaced_and_set (single_one Earlier)) 3) = - 1
   \<and> fst (call_unset 3 ''1'' (replaced_and_set (single_one Earlier)))
       = Inl (SingleModeMutationAlreadyOccurred ''unset'')
   \<and> map_option fst (call_keys (Suc (Suc 0)) 3 False (replaced_and_set (single_one Earlier)))
       = Some (Inl RangeError)
   \<and> map_option fst (call_values (Suc (Suc 0)) 3 False (replaced_and_set (single_one Earlier)))
       = Some (Inl RangeError)
   \<and> fst (call_set 0 [ItemPair ''2'' (Value 2)] False (single_one Later)) = Inr 1
   \<and> fst (call_set 0 [ItemPair ''3'' (Value 3)] False (set_two (single_one Later)))
        = Inl (SingleModeMutationAlreadyOccurred ''set'')
   \<and> call_get (set_two (single_one Later)) 0 ''1'' = Inr (Value 1)
   \<and> call_get (set_two (single_one Later)) 0 ''constructor'' = Inl TypeError
   \<and> call_get (set_two (single_one Earlier)) 0 ''constructor'' = Inl TypeError"
  by (simp add: single_one_def replaced_once_def replaced_twice_def replaced_thrice_def
      replaced_and_set_def set_two_def engine_defs cong: let_weak_cong)

text \<open>
  C8 fails on the code where it says that the successor of a lightweight-mode map
  remains fully usable. In the earlier copy the third call of \<open>replace\<close> is made on
  \<open>m2\<close>, which it locks, and returns the successor \<open>m3\<close> with the length -1: \<open>keys\<close>,
  \<open>values\<close> and \<open>keysValues\<close> of \<open>m3\<close> throw a RangeError. In both copies \<open>get\<close> and
  \<open>unset\<close> of a name that objects inherit throw a TypeError on the successor.
\<close>

theorem lightweight_successor_throws:
  "fst (call_replace 2 ''2'' (ItemPair ''1'' (Value 1)) False False
          (replaced_twice (light_one Earlier))) = Inr 3
   \<and> call_get (replaced_thrice (light_one Earlier)) 2 ''1''
       = Inl (LightweightModePostMutationUse ''get'')
   \<and> \<not> mutationOperationOccurred (mapStore (replaced_thrice (light_one Earlier)) 3)
   \<and> mlength (mapStore (replaced_thrice (light_one Earlier)) 3) = - 1
   \<and> map_option fst (call_keys (Suc (Suc 0)) 3 False (replaced_thrice (light_one Earlier)))
       = Some (Inl RangeError)
   \<and> map_option fst (call_values (Suc (Suc 0)) 3 False (replaced_thrice (light_one Earlier)))
       = Some (Inl RangeError)
   \<and> map_option fst (call_keysValues (Suc (Suc 0)) 3 False (replaced_thrice (light_one Earlier)))
       = Some (Inl RangeError)
   \<and> fst (call_set 0 [ItemPair ''2'' (Value 2)] False (light_one Later)) = Inr 1
   \<and> call_get (set_two (light_one Later)) 0 ''1'' = Inl (LightweightModePostMutationUse ''get'')
   \<and> call_get (set_two (light_one Later)) 1 ''2'' = Inr (Value 2)
   \<and> call_get (set_two (light_one Later)) 1 ''constructor'' = Inl TypeError
   \<and> fst (call_unset 1 ''constructor'' (set_two (light_one Later))) = Inl TypeError
   \<and> call_get (set_two (light_one Earlier)) 1 ''constructor'' = Inl TypeError"
  by (simp add: light_one_def replaced_once_def replaced_twice_def replaced_thrice_def
      set_two_def engine_defs cong: let_weak_cong)

text \<open>
  C10, as the claim states it, fails. An empty lightweight-mode map on which a mutation
  has produced another map has length 0, and its \<open>keys\<close> (like every operation on it)
  throws the lightweight-mode error. And a map of length 0 can have entries: the
  lightweight-mode factory does not count an item whose key is a name that objects
  inherit, and \<open>keys\<close> of the map it returns is an array of one key.
\<close>

theorem locked_empty_map_counterexample:
  "mode (mapStore (locked_empty Later) 0) = LIGHTWEIGHT
   \<and> mlength (mapStore (locked_empty Later) 0) = 0
   \<and> call_keys (Suc 0) 0 False (locked_empty Later)
        = Some (Inl (LightweightModePostMutationUse ''keys''), locked_empty Later)
   \<and> fst (inherited_key_item Later) = Inr 0
   \<and> mlength (mapStore (snd (inherited_key_item Later)) 0) = 0
   \<and> map_option fst (call_keys (Suc (Suc 0)) 0 False (snd (inherited_key_item Later)))
        = Some (Inr [Some ''constructor''])"
  by (simp add: locked_empty_def inherited_key_item_def engine_defs cong: let_weak_cong)

text \<open>
  C10, amended: for every map of length 0 that has no head node, in any mode,
  \<open>values()\<close>, \<open>keys()\<close> and \<open>keysValues()\<close> each return an empty array, unless the map is
  a lightweight-mode map on which a mutation has produced another map: then each throws
  the lightweight-mode error. (The walk of a map without a head takes no turn.)
\<close>

theorem empty_map_reads:
  assumes "mlength (mapStore s M) = 0" and "head (mapStore s M) = None"
  shows "(\<not> (mode (mapStore s M) = LIGHTWEIGHT \<and> mutationOperationOccurred (mapStore s M)) \<longrightarrow>
            map_option fst (call_values fuel M False s) = Some (Inr [])
          \<and> map_option fst (call_keys fuel M False s) = Some (Inr [])
          \<and> map_option fst (call_keysValues fuel M False s) = Some (Inr []))
       \<and> (mode (mapStore s M) = LIGHTWEIGHT \<and> mutationOperationOccurred (mapStore s M) \<longrightarrow>
            map_option fst (call_values fuel M False s)
              = Some (Inl (LightweightModePostMutationUse ''values''))
          \<and> map_option fst (call_keys fuel M False s)
              = Some (Inl (LightweightModePostMutationUse ''keys''))
          \<and> map_option fst (call_keysValues fuel M False s)
              = Some (Inl (LightweightModePostMutationUse ''keysValues'')))"
proof -
  have walk: "map_option fst (collect fuel M f False s) = Some (Inr [])"
    for f :: "jsval \<Rightarrow> key \<Rightarrow> nat \<Rightarrow> int option \<Rightarrow> 'a"
    using assms
    by (simp add: collect_def ImmutableLinkedOrderedMap_forEach_def new_Array_def Let_def)
  have fwd: "reversed_read s False = False"
    by (simp add: reversed_read_def split: engine.split)
  show ?thesis
    using walk [of "\<lambda>v k i index. v"] walk [of "\<lambda>v k i index. k"]
      walk [of "\<lambda>v k i index. (k, v)"]
    by (cases "mode (mapStore s M)")
       (simp_all add: call_values_def call_keys_def call_keysValues_def fwd
          LightweightMode_values_def LightweightMode_keys_def LightweightMode_keysValues_def
          ImmutableLinkedOrderedMap_values_def ImmutableLinkedOrderedMap_keys_def
          ImmutableLinkedOrderedMap_keysValues_def)
qed

lemma unset_only_key_facts:
  "mlength (mapStore (unset_one (single_one Later)) 1) = 0"
  "head (mapStore (unset_one (single_one Later)) 1) = None"
  "mode (mapStore (unset_one (single_one Later)) 1) = SINGLE"
  by (simp_all add: single_one_def unset_one_def engine_defs cong: let_weak_cong)

theorem empty_map_reads_witness:
  "map_option fst (call_values 0 1 False (unset_one (single_one Later))) = Some (Inr [])
   \<and> map_option fst (call_keys 0 1 False (unset_one (single_one Later))) = Some (Inr [])
   \<and> map_option fst (call_keysValues 0 1 False (unset_one (single_one Later))) = Some (Inr [])"
  using empty_map_reads [OF unset_only_key_facts(1,2), of 0] unset_only_key_facts(3)
  by simp




end
